theory Spec2Isabelle
  imports Complex_Main "HOL-Library.Word"
begin

section \<open>The request handler of asgard (handler.cpp)\<close>

text \<open>
  \<^verbatim>\<open>Handler::handle\<close> receives a routing-matrix request, rebuilds the costing model of
  the requested mode, projects the places on the graph, asks the engine for the
  time/distance matrix and classifies every result. The routing engine (graph reader,
  costing factory, matrix solver), the projector and the protocol messages are declared
  elsewhere: their operations are parameters of the model, their calls are recorded in a
  trace, and their state is one opaque value.
\<close>

subsection \<open>Engine enumerations\<close>

text \<open>
  \<^verbatim>\<open>sif::TravelMode\<close>: the engine's travel modes, \<^verbatim>\<open>kMaxTravelMode\<close> of them, which is
  the size of the array \<^verbatim>\<open>mode_costing\<close>. The values of the enumerators, here and for
  \<^verbatim>\<open>odin::Costing\<close> below, are the engine's; what follows needs them distinct and in
  range only.
\<close>

datatype TravelMode = kDrive | kPedestrian | kBicycle | kPublicTransit

fun TravelMode_value :: "TravelMode \<Rightarrow> nat" where
  "TravelMode_value kDrive = 0"
| "TravelMode_value kPedestrian = 1"
| "TravelMode_value kBicycle = 2"
| "TravelMode_value kPublicTransit = 3"

definition kMaxTravelMode :: nat where
  "kMaxTravelMode = 4"

text \<open>\<^verbatim>\<open>odin::Costing\<close>: the engine's twelve costing families.\<close>

datatype Costing =
    auto_costing | auto_shorter | bicycle | bus | hov | motor_scooter
  | multimodal | pedestrian | transit | truck | motorcycle | auto_data_fix

fun Costing_value :: "Costing \<Rightarrow> nat" where
  "Costing_value auto_costing = 0"
| "Costing_value auto_shorter = 1"
| "Costing_value bicycle = 2"
| "Costing_value bus = 3"
| "Costing_value hov = 4"
| "Costing_value motor_scooter = 5"
| "Costing_value multimodal = 6"
| "Costing_value pedestrian = 7"
| "Costing_value transit = 8"
| "Costing_value truck = 9"
| "Costing_value motorcycle = 10"
| "Costing_value auto_data_fix = 11"

subsection \<open>Messages\<close>

type_synonym u32 = "32 word"

text \<open>
  \<^verbatim>\<open>odin::CostingOptions\<close>: only \<^verbatim>\<open>walking_speed\<close> is ever written here. An optional
  field that is not set (\<open>None\<close>) leaves the engine's default in force. The type \<open>'f\<close>
  stands for C++ \<^verbatim>\<open>float\<close>.
\<close>

record 'f CostingOptions =
  walking_speed :: "'f option"

record 'f DirectionsOptions =
  costing_options :: "'f CostingOptions list"

datatype API = street_network_routing_matrix | direct_path | other_api nat

record LocationContext =
  place :: string

text \<open>
  \<^verbatim>\<open>max_duration\<close> is held as its 32 bits: \<^verbatim>\<open>uint32_t(max_duration())\<close> reads them
  unsigned.
\<close>

record 'f StreetNetworkRoutingMatrixRequest =
  origins :: "LocationContext list"
  destinations :: "LocationContext list"
  mode :: string
  speed :: 'f
  max_duration :: u32

record 'f Request =
  requested_api :: API
  sn_routing_matrix :: "'f StreetNetworkRoutingMatrixRequest"

datatype RoutingStatus = reached | unreached | unknown

text \<open>
  \<^verbatim>\<open>set_duration(elt.time)\<close> stores the 32 bits of \<^verbatim>\<open>elt.time\<close>, whatever the
  signedness of the field.
\<close>

record RoutingResponse =
  duration :: u32
  routing_status :: RoutingStatus

record RoutingRow =
  routing_response :: "RoutingResponse list"

text \<open>
  \<^verbatim>\<open>pbnavitia::Response\<close>: \<open>rows\<close> are the rows of its \<^verbatim>\<open>sn_routing_matrix\<close>;
  a default-constructed response has none.
\<close>

record Response =
  rows :: "RoutingRow list"

definition Response_empty :: Response where
  "Response_empty = \<lparr>rows = []\<rparr>"

text \<open>\<^verbatim>\<open>thor::TimeDistance\<close>, one element of the solver's result.\<close>

record TimeDistance =
  time :: u32
  dist :: u32

subsection \<open>Failures\<close>

text \<open>
  The exceptions and aborts that leave \<^verbatim>\<open>handle\<close>: \<^verbatim>\<open>std::invalid_argument\<close> of
  \<^verbatim>\<open>to_costing\<close>, \<^verbatim>\<open>std::out_of_range\<close> of \<^verbatim>\<open>map::at\<close>, a failed \<^verbatim>\<open>assert\<close>, and
  whatever a collaborator raises.
\<close>

datatype failure =
    invalid_argument string
  | out_of_range
  | assertion_failed
  | collaborator_failure string

subsection \<open>Static helpers of handler.cpp\<close>

text \<open>
  \<^verbatim>\<open>make_default_directions_options\<close>: twelve calls of \<^verbatim>\<open>add_costing_options()\<close>
  on an empty message.
\<close>

fun add_costing_options_loop :: "nat \<Rightarrow> 'f DirectionsOptions \<Rightarrow> 'f DirectionsOptions" where
  "add_costing_options_loop 0 opts = opts"
| "add_costing_options_loop (Suc n) opts =
     add_costing_options_loop n
       (opts\<lparr>costing_options := costing_options opts @ [\<lparr>walking_speed = None\<rparr>]\<rparr>)"

definition make_default_directions_options :: "'f DirectionsOptions" where
  "make_default_directions_options =
     add_costing_options_loop 12 \<lparr>costing_options = []\<rparr>"

definition default_directions_options :: "'f DirectionsOptions" where
  "default_directions_options = make_default_directions_options"

definition mode_map :: "string \<rightharpoonup> TravelMode" where
  "mode_map = map_of
     [(''walking'', kPedestrian),
      (''bike'', kBicycle),
      (''car'', kDrive)]"

text \<open>\<^verbatim>\<open>mode_map.at(mode)\<close> throws \<^verbatim>\<open>std::out_of_range\<close> on a missing key.\<close>

definition mode_map_at :: "string \<Rightarrow> failure + TravelMode" where
  "mode_map_at m = (case mode_map m of None \<Rightarrow> Inl out_of_range | Some t \<Rightarrow> Inr t)"

definition mode_index :: "string \<Rightarrow> failure + nat" where
  "mode_index m =
     (case mode_map_at m of Inl e \<Rightarrow> Inl e | Inr t \<Rightarrow> Inr (TravelMode_value t))"

text \<open>
  \<^verbatim>\<open>mutable_costing_options(c)->set_walking_speed(v)\<close>; the index is always one of the
  twelve slots.
\<close>

definition set_walking_speed :: "Costing \<Rightarrow> 'f \<Rightarrow> 'f DirectionsOptions \<Rightarrow> 'f DirectionsOptions" where
  "set_walking_speed c v opts =
     opts\<lparr>costing_options :=
       (costing_options opts)
         [Costing_value c := (costing_options opts ! Costing_value c)\<lparr>walking_speed := Some v\<rparr>]\<rparr>"

text \<open>
  \<^verbatim>\<open>make_costing_option\<close>. Line 48, \<^verbatim>\<open>speed *= 3.6\<close>, multiplies a \<^verbatim>\<open>float\<close> by the
  \<^verbatim>\<open>double\<close> constant 3.6. The parameter \<open>mul\<close> is that primitive of C++:
  \<open>mul x c\<close> is what \<^verbatim>\<open>x *= c\<close> leaves in a \<^verbatim>\<open>float\<close> \<open>x\<close> for the \<^verbatim>\<open>double\<close>
  constant written \<open>c\<close>, the product taken in \<^verbatim>\<open>double\<close> and converted back.
\<close>

definition make_costing_option ::
  "('f \<Rightarrow> real \<Rightarrow> 'f) \<Rightarrow> string \<Rightarrow> 'f \<Rightarrow> 'f DirectionsOptions" where
  "make_costing_option mul m s =
     (let options = default_directions_options;
          s' = mul s 3.6;
          options = set_walking_speed pedestrian s' options;
          options = set_walking_speed bicycle s' options
      in options)"

text \<open>
  \<^verbatim>\<open>get_distance\<close>. \<open>fmul\<close> is float multiplication; the three divisors are the engine's
  constants \<^verbatim>\<open>thor::kTimeDistCostThreshold...Divisor\<close>.
\<close>

record 'f thor_constants =
  kTimeDistCostThresholdPedestrianDivisor :: 'f
  kTimeDistCostThresholdBicycleDivisor :: 'f
  kTimeDistCostThresholdAutoDivisor :: 'f

definition get_distance ::
  "('f \<Rightarrow> 'f \<Rightarrow> 'f) \<Rightarrow> 'f thor_constants \<Rightarrow> string \<Rightarrow> 'f \<Rightarrow> 'f" where
  "get_distance fmul k m d =
     (if m = ''walking'' then fmul d (kTimeDistCostThresholdPedestrianDivisor k)
      else if m = ''bike'' then fmul d (kTimeDistCostThresholdBicycleDivisor k)
      else fmul d (kTimeDistCostThresholdAutoDivisor k))"

definition to_costing :: "string \<Rightarrow> failure + Costing" where
  "to_costing m =
     (if m = ''walking'' then Inr pedestrian
      else if m = ''bike'' then Inr bicycle
      else if m = ''car'' then Inr auto_costing
      else Inl (invalid_argument ''Bad to_costing parameter''))"

subsection \<open>Collaborators, build and state\<close>

text \<open>
  Two properties of the build decide what \<^verbatim>\<open>handle\<close> does: whether \<^verbatim>\<open>NDEBUG\<close> is defined
  (then \<^verbatim>\<open>assert\<close> expands to nothing), and which operand of the assignment
  \<^verbatim>\<open>mode_costing[mode_index(mode)] = factory.Create(to_costing(mode), ...)\<close> is evaluated
  first (the right one since C++17, unspecified before).
\<close>

datatype operand_order = right_operand_first | left_operand_first

record build =
  NDEBUG :: bool
  assignment_order :: operand_order

text \<open>
  The collaborators. \<open>'c\<close> is a costing model (\<^verbatim>\<open>cost_ptr_t\<close> is \<open>'c option\<close>, \<open>None\<close>
  the null pointer), \<open>'w\<close> the state of graph reader, projector and matrix solver
  together, \<open>'l\<close> a \<^verbatim>\<open>baldr::PathLocation\<close>, \<open>'o\<close> an \<^verbatim>\<open>odin::Location\<close>.
  \<open>mul_double\<close> is the multiplication of a \<^verbatim>\<open>float\<close> by a \<^verbatim>\<open>double\<close> constant,
  \<open>fmul\<close> the one of two \<^verbatim>\<open>float\<close>s.
  \<open>float_of\<close> converts \<^verbatim>\<open>max_duration()\<close> to the \<^verbatim>\<open>float\<close> parameter of
  \<^verbatim>\<open>get_distance\<close>; \<open>eq_kMaxCost x\<close> is the test \<^verbatim>\<open>x == thor::kMaxCost\<close> on a
  \<^verbatim>\<open>uint32_t\<close>, whose constant is the engine's. The projector and the solver may
  fail; the factory, for the three costings registered by the constructor,
  \<^verbatim>\<open>toPBF\<close> and the two calls of the graph reader are taken to return.
\<close>

record ('f, 'c, 'w, 'l, 'o) engine =
  mul_double :: "'f \<Rightarrow> real \<Rightarrow> 'f"
  fmul :: "'f \<Rightarrow> 'f \<Rightarrow> 'f"
  float_of :: "u32 \<Rightarrow> 'f"
  thor :: "'f thor_constants"
  eq_kMaxCost :: "u32 \<Rightarrow> bool"
  Create :: "Costing \<Rightarrow> 'f DirectionsOptions \<Rightarrow> 'c"
  projector :: "string list \<Rightarrow> string \<Rightarrow> 'c option \<Rightarrow> 'w \<Rightarrow> (failure + (string \<rightharpoonup> 'l)) \<times> 'w"
  toPBF :: "'l \<Rightarrow> 'w \<Rightarrow> 'o \<times> 'w"
  SourceToTarget ::
    "'o list \<Rightarrow> 'o list \<Rightarrow> 'c option list \<Rightarrow> TravelMode \<Rightarrow> 'f \<Rightarrow> 'w
       \<Rightarrow> (failure + TimeDistance list) \<times> 'w"
  OverCommitted :: "'w \<Rightarrow> bool"
  Clear :: "'w \<Rightarrow> 'w"

text \<open>A log message: string literals and \<^verbatim>\<open>std::to_string\<close> of numbers, concatenated.\<close>

datatype piece = S string | N int

datatype ('f, 'c, 'l, 'o) event =
    LOG_WARN string
  | LOG_INFO "piece list"
  | Call_Create Costing "'f DirectionsOptions"
  | Call_projector "string list" string "'c option"
  | Call_toPBF 'l
  | Call_SourceToTarget "'o list" "'o list" "'c option list" TravelMode 'f
  | Call_OverCommitted
  | Call_Clear

record ('c, 'w) Handler =
  mode_costing :: "'c option list"
  engine_state :: 'w

text \<open>What a run of \<^verbatim>\<open>handle\<close>, or of a part of it, leaves behind.\<close>

type_synonym ('a, 'f, 'c, 'w, 'l, 'o) outcome =
  "(failure + 'a) \<times> ('c, 'w) Handler \<times> ('f, 'c, 'l, 'o) event list"

subsection \<open>The constructor\<close>

text \<open>
  \<^verbatim>\<open>Handler::Handler\<close>: the array \<^verbatim>\<open>mode_costing\<close> of \<^verbatim>\<open>kMaxTravelMode\<close> null
  pointers, then the three default models. \<open>w\<close> is the state of the collaborators once
  constructed.
\<close>

definition Handler_new ::
  "('f, 'c, 'w, 'l, 'o) engine \<Rightarrow> 'w \<Rightarrow> failure + ('c, 'w) Handler" where
  "Handler_new eng w =
     (let mc = replicate kMaxTravelMode None in
      case mode_index ''car'' of Inl e \<Rightarrow> Inl e | Inr i \<Rightarrow>
      let mc = mc[i := Some (Create eng auto_costing default_directions_options)] in
      case mode_index ''walking'' of Inl e \<Rightarrow> Inl e | Inr i \<Rightarrow>
      let mc = mc[i := Some (Create eng pedestrian default_directions_options)] in
      case mode_index ''bike'' of Inl e \<Rightarrow> Inl e | Inr i \<Rightarrow>
      let mc = mc[i := Some (Create eng bicycle default_directions_options)] in
      Inr \<lparr>mode_costing = mc, engine_state = w\<rparr>)"

subsection \<open>The parts of handle\<close>

text \<open>
  Line 116, \<^verbatim>\<open>mode_costing[mode_index(mode)] = factory.Create(to_costing(mode),
  make_costing_option(mode, speed))\<close>: both operands are evaluated, in the order of the
  build, before the slot is written.
\<close>

definition assign_mode_costing ::
  "build \<Rightarrow> ('f, 'c, 'w, 'l, 'o) engine \<Rightarrow> ('c, 'w) Handler \<Rightarrow> string \<Rightarrow> 'f
     \<Rightarrow> (unit, 'f, 'c, 'w, 'l, 'o) outcome" where
  "assign_mode_costing bld eng h m s =
     (case assignment_order bld of
        right_operand_first \<Rightarrow>
          (case to_costing m of
             Inl e \<Rightarrow> (Inl e, h, [])
           | Inr c \<Rightarrow>
               let opts = make_costing_option (mul_double eng) m s;
                   v = Create eng c opts
               in (case mode_index m of
                     Inl e \<Rightarrow> (Inl e, h, [Call_Create c opts])
                   | Inr i \<Rightarrow>
                       (Inr (), h\<lparr>mode_costing := (mode_costing h)[i := Some v]\<rparr>,
                        [Call_Create c opts])))
      | left_operand_first \<Rightarrow>
          (case mode_index m of
             Inl e \<Rightarrow> (Inl e, h, [])
           | Inr i \<Rightarrow>
               (case to_costing m of
                  Inl e \<Rightarrow> (Inl e, h, [])
                | Inr c \<Rightarrow>
                    let opts = make_costing_option (mul_double eng) m s;
                        v = Create eng c opts
                    in (Inr (), h\<lparr>mode_costing := (mode_costing h)[i := Some v]\<rparr>,
                        [Call_Create c opts]))))"

text \<open>
  Line 117, \<^verbatim>\<open>auto costing = mode_costing[mode_index(mode)]\<close>. The index is the value of
  a travel mode, below the size of the array.
\<close>

definition read_mode_costing :: "('c, 'w) Handler \<Rightarrow> string \<Rightarrow> failure + 'c option" where
  "read_mode_costing h m =
     (case mode_index m of Inl e \<Rightarrow> Inl e | Inr i \<Rightarrow> Inr (mode_costing h ! i))"

text \<open>
  Lines 126 to 131, one loop: \<^verbatim>\<open>path_locations.at(e)\<close> throws \<^verbatim>\<open>std::out_of_range\<close>
  for a place the projector did not return.
\<close>

fun toPBF_loop ::
  "('f, 'c, 'w, 'l, 'o) engine \<Rightarrow> (string \<rightharpoonup> 'l) \<Rightarrow> string list \<Rightarrow> 'o list
     \<Rightarrow> ('c, 'w) Handler \<Rightarrow> ('f, 'c, 'l, 'o) event list
     \<Rightarrow> ('o list, 'f, 'c, 'w, 'l, 'o) outcome" where
  "toPBF_loop eng path_locations [] acc h t = (Inr acc, h, t)"
| "toPBF_loop eng path_locations (e # es) acc h t =
     (case path_locations e of
        None \<Rightarrow> (Inl out_of_range, h, t)
      | Some l \<Rightarrow>
          (case toPBF eng l (engine_state h) of
             (loc, w) \<Rightarrow>
               toPBF_loop eng path_locations es (acc @ [loc])
                 (h\<lparr>engine_state := w\<rparr>) (t @ [Call_toPBF l])))"

text \<open>Lines 119 to 131.\<close>

definition project_locations ::
  "('f, 'c, 'w, 'l, 'o) engine \<Rightarrow> ('c, 'w) Handler \<Rightarrow> string \<Rightarrow> 'c option
     \<Rightarrow> string list \<Rightarrow> string list
     \<Rightarrow> ('o list \<times> 'o list, 'f, 'c, 'w, 'l, 'o) outcome" where
  "project_locations eng h m costing sources targets =
     (let t = [LOG_INFO [S ''Projecting '',
                         N (int (length sources + length targets)),
                         S '' locations...''],
               Call_projector (sources @ targets) m costing]
      in case projector eng (sources @ targets) m costing (engine_state h) of
           (Inl e, w) \<Rightarrow> (Inl e, h\<lparr>engine_state := w\<rparr>, t)
         | (Inr path_locations, w) \<Rightarrow>
             (case toPBF_loop eng path_locations sources []
                     (h\<lparr>engine_state := w\<rparr>)
                     (t @ [LOG_INFO [S ''Projecting locations done.'']]) of
                (Inl e, h1, t1) \<Rightarrow> (Inl e, h1, t1)
              | (Inr path_location_sources, h1, t1) \<Rightarrow>
                  (case toPBF_loop eng path_locations targets [] h1 t1 of
                     (Inl e, h2, t2) \<Rightarrow> (Inl e, h2, t2)
                   | (Inr path_location_targets, h2, t2) \<Rightarrow>
                       (Inr (path_location_sources, path_location_targets), h2, t2))))"

text \<open>Lines 133 to 140.\<close>

definition compute_matrix ::
  "('f, 'c, 'w, 'l, 'o) engine \<Rightarrow> ('c, 'w) Handler \<Rightarrow> string \<Rightarrow> u32
     \<Rightarrow> 'o list \<Rightarrow> 'o list
     \<Rightarrow> (TimeDistance list, 'f, 'c, 'w, 'l, 'o) outcome" where
  "compute_matrix eng h m max_d path_location_sources path_location_targets =
     (let t = [LOG_INFO [S ''Computing matrix...'']] in
      case mode_map_at m of
        Inl e \<Rightarrow> (Inl e, h, t)
      | Inr travel_mode \<Rightarrow>
          let threshold = get_distance (fmul eng) (thor eng) m (float_of eng max_d);
              t = t @ [Call_SourceToTarget path_location_sources path_location_targets
                         (mode_costing h) travel_mode threshold]
          in case SourceToTarget eng path_location_sources path_location_targets
                    (mode_costing h) travel_mode threshold (engine_state h) of
               (Inl e, w) \<Rightarrow> (Inl e, h\<lparr>engine_state := w\<rparr>, t)
             | (Inr res, w) \<Rightarrow>
                 (Inr res, h\<lparr>engine_state := w\<rparr>,
                  t @ [LOG_INFO [S ''Computing matrix done.'']]))"

text \<open>
  Lines 148 to 160, the loop over \<^verbatim>\<open>res\<close>: the row built so far and the two counters
  are the accumulator. The comparison with \<^verbatim>\<open>uint32_t(max_duration())\<close> is the unsigned
  one of the words. The counters are \<^verbatim>\<open>int\<close>s that count elements of \<^verbatim>\<open>res\<close>; they are
  kept unbounded here.
\<close>

fun classify_loop ::
  "(u32 \<Rightarrow> bool) \<Rightarrow> u32 \<Rightarrow> TimeDistance list \<Rightarrow> RoutingResponse list \<times> int \<times> int
     \<Rightarrow> RoutingResponse list \<times> int \<times> int" where
  "classify_loop is_max max_d [] (row, nb_unknown, nb_unreached) =
     (row, nb_unknown, nb_unreached)"
| "classify_loop is_max max_d (elt # res) (row, nb_unknown, nb_unreached) =
     (if is_max (time elt) then
        classify_loop is_max max_d res
          (row @ [\<lparr>duration = time elt, routing_status = unknown\<rparr>],
           nb_unknown + 1, nb_unreached)
      else if time elt > max_d then
        classify_loop is_max max_d res
          (row @ [\<lparr>duration = time elt, routing_status = unreached\<rparr>],
           nb_unknown, nb_unreached + 1)
      else
        classify_loop is_max max_d res
          (row @ [\<lparr>duration = time elt, routing_status = reached\<rparr>],
           nb_unknown, nb_unreached))"

text \<open>
  Lines 142 to 164. \<^verbatim>\<open>assert(res.size() == sources.size() * targets.size())\<close> aborts the
  process unless \<^verbatim>\<open>NDEBUG\<close> is defined. The sizes of the two repeated fields are below
  \<open>2^31\<close>, so their product in a \<^verbatim>\<open>size_t\<close> of 64 bits is the product of the lengths.
\<close>

definition build_response ::
  "build \<Rightarrow> ('f, 'c, 'w, 'l, 'o) engine \<Rightarrow> ('c, 'w) Handler \<Rightarrow> u32
     \<Rightarrow> string list \<Rightarrow> string list \<Rightarrow> TimeDistance list
     \<Rightarrow> (Response, 'f, 'c, 'w, 'l, 'o) outcome" where
  "build_response bld eng h max_d sources targets res =
     (if \<not> NDEBUG bld \<and> length res \<noteq> length sources * length targets
      then (Inl assertion_failed, h, [])
      else
        case classify_loop (eq_kMaxCost eng) max_d res ([], 0, 0) of
          (row, nb_unknown, nb_unreached) \<Rightarrow>
            (Inr \<lparr>rows = [\<lparr>routing_response = row\<rparr>]\<rparr>, h,
             [LOG_INFO [S ''Request done with '', N nb_unknown, S '' unknown and '',
                        N nb_unreached, S '' unreached'']]))"

text \<open>Lines 166 and 167.\<close>

definition trim_graph ::
  "('f, 'c, 'w, 'l, 'o) engine \<Rightarrow> ('c, 'w) Handler
     \<Rightarrow> ('c, 'w) Handler \<times> ('f, 'c, 'l, 'o) event list" where
  "trim_graph eng h =
     (if OverCommitted eng (engine_state h)
      then (h\<lparr>engine_state := Clear eng (engine_state h)\<rparr>,
            [Call_OverCommitted, Call_Clear, LOG_INFO [S ''Everything is clear.'']])
      else (h, [Call_OverCommitted, LOG_INFO [S ''Everything is clear.'']]))"

subsection \<open>handle\<close>

definition handle ::
  "build \<Rightarrow> ('f, 'c, 'w, 'l, 'o) engine \<Rightarrow> ('c, 'w) Handler \<Rightarrow> 'f Request
     \<Rightarrow> (Response, 'f, 'c, 'w, 'l, 'o) outcome" where
  "handle bld eng h request =
     (if requested_api request \<noteq> street_network_routing_matrix
         \<and> requested_api request \<noteq> direct_path
      then (Inr Response_empty, h, [LOG_WARN ''wrong request: aborting''])
      else
        let rm = sn_routing_matrix request;
            t0 = [LOG_INFO [S ''Processing matrix request '',
                            N (int (length (origins rm))), S ''x'',
                            N (int (length (destinations rm)))]];
            m = mode rm;
            sources = map place (origins rm);
            targets = map place (destinations rm)
        in
        case assign_mode_costing bld eng h m (speed rm) of
          (Inl e, h1, t1) \<Rightarrow> (Inl e, h1, t0 @ t1)
        | (Inr _, h1, t1) \<Rightarrow>
        case read_mode_costing h1 m of
          Inl e \<Rightarrow> (Inl e, h1, t0 @ t1)
        | Inr costing \<Rightarrow>
        case project_locations eng h1 m costing sources targets of
          (Inl e, h2, t2) \<Rightarrow> (Inl e, h2, t0 @ t1 @ t2)
        | (Inr (path_location_sources, path_location_targets), h2, t2) \<Rightarrow>
        case compute_matrix eng h2 m (max_duration rm)
               path_location_sources path_location_targets of
          (Inl e, h3, t3) \<Rightarrow> (Inl e, h3, t0 @ t1 @ t2 @ t3)
        | (Inr res, h3, t3) \<Rightarrow>
        case build_response bld eng h3 (max_duration rm) sources targets res of
          (Inl e, h4, t4) \<Rightarrow> (Inl e, h4, t0 @ t1 @ t2 @ t3 @ t4)
        | (Inr response, h4, t4) \<Rightarrow>
        case trim_graph eng h4 of
          (h5, t5) \<Rightarrow> (Inr response, h5, t0 @ t1 @ t2 @ t3 @ t4 @ t5))"

subsection \<open>An example engine\<close>

text \<open>
  A small engine on which the handler can be run. Floats are kept symbolic, a costing
  model is the pair the factory was called with, the state of the collaborators counts
  the tiles loaded, the projector knows the places of \<open>known\<close>, and the solver returns
  \<open>res\<close> whatever it is asked.
\<close>

datatype float_expr =
    Lit string | Num real | Of_u32 u32 | Times float_expr float_expr
  | Times_double float_expr real

text \<open>
  The number a symbolic float stands for when the arithmetic is exact, the engine's
  constants being given by \<open>k\<close>.
\<close>

fun float_value :: "(string \<Rightarrow> real) \<Rightarrow> float_expr \<Rightarrow> real" where
  "float_value k (Lit n) = k n"
| "float_value k (Num r) = r"
| "float_value k (Of_u32 w) = real (unat w)"
| "float_value k (Times a b) = float_value k a * float_value k b"
| "float_value k (Times_double a c) = float_value k a * c"

type_synonym example_costing = "Costing \<times> float_expr DirectionsOptions"

definition example_engine ::
  "string list \<Rightarrow> TimeDistance list
     \<Rightarrow> (float_expr, example_costing, nat, string, string) engine" where
  "example_engine known res =
     \<lparr>mul_double = Times_double,
      fmul = Times,
      float_of = Of_u32,
      thor = \<lparr>kTimeDistCostThresholdPedestrianDivisor = Lit ''pedestrian divisor'',
              kTimeDistCostThresholdBicycleDivisor = Lit ''bicycle divisor'',
              kTimeDistCostThresholdAutoDivisor = Lit ''auto divisor''\<rparr>,
      eq_kMaxCost = (\<lambda>x. x = 100000000),
      Create = (\<lambda>c opts. (c, opts)),
      projector = (\<lambda>ids m costing w.
        (Inr (map_of (map (\<lambda>e. (e, e)) (filter (\<lambda>e. e \<in> set known) ids))),
         w + length ids)),
      toPBF = (\<lambda>l w. (l, w)),
      SourceToTarget = (\<lambda>srcs tgts mc tm thr w. (Inr res, Suc w)),
      OverCommitted = (\<lambda>w. 100 < w),
      Clear = (\<lambda>w. 0)\<rparr>"

definition example_handler :: "(example_costing, nat) Handler" where
  "example_handler =
     \<lparr>mode_costing =
        [Some (auto_costing, default_directions_options),
         Some (pedestrian, default_directions_options),
         Some (bicycle, default_directions_options),
         None],
      engine_state = 0\<rparr>"

definition example_request :: "API \<Rightarrow> string \<Rightarrow> u32 \<Rightarrow> float_expr Request" where
  "example_request api m max_d =
     \<lparr>requested_api = api,
      sn_routing_matrix =
        \<lparr>origins = [\<lparr>place = ''A''\<rparr>, \<lparr>place = ''B''\<rparr>],
         destinations = [\<lparr>place = ''C''\<rparr>, \<lparr>place = ''D''\<rparr>, \<lparr>place = ''E''\<rparr>],
         mode = m,
         speed = Num 1.4,
         max_duration = max_d\<rparr>\<rparr>"

text \<open>The same request at another speed.\<close>

definition example_request_at :: "API \<Rightarrow> string \<Rightarrow> u32 \<Rightarrow> float_expr \<Rightarrow> float_expr Request" where
  "example_request_at api m max_d s =
     \<lparr>requested_api = api,
      sn_routing_matrix = (sn_routing_matrix (example_request api m max_d))\<lparr>speed := s\<rparr>\<rparr>"

definition example_places :: "string list" where
  "example_places = [''A'', ''B'', ''C'', ''D'', ''E'']"

definition times_of :: "u32 list \<Rightarrow> TimeDistance list" where
  "times_of ts = map (\<lambda>x. \<lparr>time = x, dist = 0\<rparr>) ts"

definition debug_build :: build where
  "debug_build = \<lparr>NDEBUG = False, assignment_order = right_operand_first\<rparr>"

definition release_build :: build where
  "release_build = \<lparr>NDEBUG = True, assignment_order = right_operand_first\<rparr>"

text \<open>The engine of the scenario: every place is known, six results come back.\<close>

definition scenario_engine :: "(float_expr, example_costing, nat, string, string) engine" where
  "scenario_engine =
     example_engine example_places (times_of [100, 100000000, 700, 50, 599, 601])"

text \<open>The example request, run on an engine of the example's kind.\<close>

definition example_run ::
  "build \<Rightarrow> (float_expr, example_costing, nat, string, string) engine \<Rightarrow> API \<Rightarrow> string
     \<Rightarrow> (Response, float_expr, example_costing, nat, string, string) outcome" where
  "example_run bld eng api m = handle bld eng example_handler (example_request api m 600)"

text \<open>A second request for the same mode, at the speed \<open>s\<close>, on the handler the first left.\<close>

definition example_second_run ::
  "build \<Rightarrow> (float_expr, example_costing, nat, string, string) engine \<Rightarrow> API \<Rightarrow> string
     \<Rightarrow> float_expr
     \<Rightarrow> (Response, float_expr, example_costing, nat, string, string) outcome" where
  "example_second_run bld eng api m s =
     handle bld eng (fst (snd (example_run bld eng api m))) (example_request_at api m 600 s)"

subsection \<open>Reading a trace\<close>

fun solver_call :: "('f, 'c, 'l, 'o) event \<Rightarrow> bool" where
  "solver_call (Call_SourceToTarget srcs tgts mc tm thr) = True"
| "solver_call _ = False"

section \<open>Lemmas\<close>

subsection \<open>Options, modes and the classification loop\<close>

lemma add_costing_options_loop_eq:
  "costing_options (add_costing_options_loop n opts) =
     costing_options opts @ replicate n \<lparr>walking_speed = None\<rparr>"
  by (induction n arbitrary: opts) (simp_all add: replicate_app_Cons_same)

lemma default_directions_options_eq:
  "costing_options default_directions_options = replicate 12 \<lparr>walking_speed = None\<rparr>"
  by (simp add: default_directions_options_def make_default_directions_options_def
      add_costing_options_loop_eq)

lemma make_costing_option_slots:
  "costing_options (make_costing_option mul m s) =
     (replicate 12 \<lparr>walking_speed = None\<rparr>)
       [7 := \<lparr>walking_speed = Some (mul s 3.6)\<rparr>, 2 := \<lparr>walking_speed = Some (mul s 3.6)\<rparr>]"
  by (simp add: make_costing_option_def set_walking_speed_def default_directions_options_eq Let_def)

lemma make_costing_option_eq:
  "make_costing_option mul m s =
     \<lparr>costing_options = (replicate 12 \<lparr>walking_speed = None\<rparr>)
        [Costing_value pedestrian := \<lparr>walking_speed = Some (mul s 3.6)\<rparr>,
         Costing_value bicycle := \<lparr>walking_speed = Some (mul s 3.6)\<rparr>]\<rparr>"
proof -
  have "make_costing_option mul m s
          = \<lparr>costing_options = costing_options (make_costing_option mul m s)\<rparr>"
    by simp
  then show ?thesis
    by (simp add: make_costing_option_slots)
qed

lemma mode_map_Some:
  "mode_map m = Some t \<longleftrightarrow>
     (m = ''walking'' \<and> t = kPedestrian) \<or> (m = ''bike'' \<and> t = kBicycle)
       \<or> (m = ''car'' \<and> t = kDrive)"
  by (auto simp: mode_map_def)

lemma mode_map_None:
  "mode_map m = None \<longleftrightarrow> m \<noteq> ''walking'' \<and> m \<noteq> ''bike'' \<and> m \<noteq> ''car''"
  by (auto simp: mode_map_def)

lemma to_costing_Inr:
  "to_costing m = Inr c \<longleftrightarrow>
     (m = ''walking'' \<and> c = pedestrian) \<or> (m = ''bike'' \<and> c = bicycle)
       \<or> (m = ''car'' \<and> c = auto_costing)"
  by (auto simp: to_costing_def)

lemma to_costing_unsupported:
  "mode_map m = None \<Longrightarrow> to_costing m = Inl (invalid_argument ''Bad to_costing parameter'')"
  by (simp add: mode_map_None to_costing_def)

lemma mode_index_unsupported:
  "mode_map m = None \<Longrightarrow> mode_index m = Inl out_of_range"
  by (simp add: mode_index_def mode_map_at_def)

lemma mode_index_Inr:
  "mode_index m = Inr i \<longleftrightarrow> (\<exists>t. mode_map m = Some t \<and> i = TravelMode_value t)"
  by (auto simp: mode_index_def mode_map_at_def split: option.splits)

lemma mode_index_lt: "mode_index m = Inr i \<Longrightarrow> i < kMaxTravelMode"
  by (auto simp: mode_index_Inr mode_map_Some kMaxTravelMode_def)

lemma classify_loop_row:
  "fst (classify_loop p d res (row, a, b)) =
     row @ map (\<lambda>r. \<lparr>duration = time r,
                      routing_status = (if p (time r) then unknown
                                        else if d < time r then unreached else reached)\<rparr>) res"
  by (induction res arbitrary: row a b) auto

lemma classify_loop_unknown:
  "fst (snd (classify_loop p d res (row, a, b))) =
     a + int (length (filter (\<lambda>r. p (time r)) res))"
  by (induction res arbitrary: row a b) auto

lemma classify_loop_unreached:
  "snd (snd (classify_loop p d res (row, a, b))) =
     b + int (length (filter (\<lambda>r. \<not> p (time r) \<and> d < time r) res))"
  by (induction res arbitrary: row a b) auto

subsection \<open>The parts of handle\<close>

lemma supported_mode:
  "mode_map m = Some tm \<Longrightarrow> \<exists>c. to_costing m = Inr c"
  by (auto simp: mode_map_Some to_costing_def)

lemma assign_mode_costing_unsupported:
  "mode_map m = None \<Longrightarrow>
   assign_mode_costing bld eng h m s =
     (Inl (case assignment_order bld of
             right_operand_first \<Rightarrow> invalid_argument ''Bad to_costing parameter''
           | left_operand_first \<Rightarrow> out_of_range), h, [])"
  by (simp add: assign_mode_costing_def to_costing_unsupported mode_index_unsupported
      split: operand_order.splits)

lemma assign_mode_costing_supported:
  "mode_map m = Some tm \<Longrightarrow> to_costing m = Inr c \<Longrightarrow>
   assign_mode_costing bld eng h m s =
     (Inr (),
      h\<lparr>mode_costing := (mode_costing h)
           [TravelMode_value tm := Some (Create eng c (make_costing_option (mul_double eng) m s))]\<rparr>,
      [Call_Create c (make_costing_option (mul_double eng) m s)])"
  by (simp add: assign_mode_costing_def mode_index_def mode_map_at_def Let_def
      split: operand_order.splits)

lemma read_mode_costing_supported:
  "mode_map m = Some tm \<Longrightarrow> read_mode_costing h m = Inr (mode_costing h ! TravelMode_value tm)"
  by (simp add: read_mode_costing_def mode_index_def mode_map_at_def)

lemma toPBF_loop_frame:
  "toPBF_loop eng pl es acc h t = (r, h', t') \<Longrightarrow>
     mode_costing h' = mode_costing h \<and> (\<exists>ls. t' = t @ map Call_toPBF ls)"
proof (induction es arbitrary: acc h t)
  case Nil
  then show ?case by simp
next
  case (Cons e es)
  show ?case
  proof (cases "pl e")
    case None
    with Cons.prems show ?thesis by simp
  next
    case (Some l)
    obtain loc w where lw: "toPBF eng l (engine_state h) = (loc, w)"
      by (cases "toPBF eng l (engine_state h)")
    from Cons.prems Some lw
    have "toPBF_loop eng pl es (acc @ [loc]) (h\<lparr>engine_state := w\<rparr>) (t @ [Call_toPBF l])
            = (r, h', t')"
      by simp
    from Cons.IH [OF this] obtain ls where
      "mode_costing h' = mode_costing h" and "t' = (t @ [Call_toPBF l]) @ map Call_toPBF ls"
      by auto
    then have "t' = t @ map Call_toPBF (l # ls)" by simp
    with \<open>mode_costing h' = mode_costing h\<close> show ?thesis by blast
  qed
qed

lemma toPBF_loop_missing:
  "e \<in> set es \<Longrightarrow> pl e = None \<Longrightarrow> fst (toPBF_loop eng pl es acc h t) = Inl out_of_range"
proof (induction es arbitrary: acc h t)
  case Nil
  then show ?case by simp
next
  case (Cons x es)
  then show ?case
    by (cases "pl x") (auto split: prod.splits)
qed

lemma toPBF_loop_total:
  "set es \<subseteq> dom pl \<Longrightarrow> \<exists>locs h' t'. toPBF_loop eng pl es acc h t = (Inr locs, h', t')
      \<and> length locs = length acc + length es"
proof (induction es arbitrary: acc h t)
  case Nil
  then show ?case by simp
next
  case (Cons x es)
  then obtain l where l: "pl x = Some l" by auto
  obtain loc w where lw: "toPBF eng l (engine_state h) = (loc, w)"
    by (cases "toPBF eng l (engine_state h)")
  from Cons.prems have "set es \<subseteq> dom pl" by simp
  from Cons.IH [OF this, of "acc @ [loc]" "h\<lparr>engine_state := w\<rparr>" "t @ [Call_toPBF l]"]
  show ?case using l lw by auto
qed

lemma project_locations_frame:
  assumes "project_locations eng h m costing sources targets = (r, h', t)"
  shows "mode_costing h' = mode_costing h"
    and "\<exists>tl. t = LOG_INFO [S ''Projecting '', N (int (length sources + length targets)),
                           S '' locations...'']
               # Call_projector (sources @ targets) m costing # tl
            \<and> (\<forall>ev \<in> set tl. \<not> solver_call ev)"
proof -
  obtain pr w where p: "projector eng (sources @ targets) m costing (engine_state h) = (pr, w)"
    by (cases "projector eng (sources @ targets) m costing (engine_state h)")
  let ?g = "mode_costing h' = mode_costing h \<and>
    (\<exists>tl. t = LOG_INFO [S ''Projecting '', N (int (length sources + length targets)),
                           S '' locations...'']
               # Call_projector (sources @ targets) m costing # tl
            \<and> (\<forall>ev \<in> set tl. \<not> solver_call ev))"
  have ?g
  proof (cases pr)
    case (Inl e)
    with assms p show ?thesis by (auto simp: project_locations_def)
  next
    case (Inr pl)
    let ?h0 = "h\<lparr>engine_state := w\<rparr>"
    let ?t0 = "[LOG_INFO [S ''Projecting '', N (int (length sources + length targets)),
                           S '' locations...''],
               Call_projector (sources @ targets) m costing,
               LOG_INFO [S ''Projecting locations done.'']]"
    obtain r1 h1 t1 where l1: "toPBF_loop eng pl sources [] ?h0 ?t0 = (r1, h1, t1)"
      by (cases "toPBF_loop eng pl sources [] ?h0 ?t0")
    from toPBF_loop_frame [OF l1] obtain ls1 where
      f1: "mode_costing h1 = mode_costing h" "t1 = ?t0 @ map Call_toPBF ls1" by auto
    show ?thesis
    proof (cases r1)
      case (Inl e)
      with assms p \<open>pr = Inr pl\<close> l1 have "h' = h1" "t = t1"
        by (auto simp: project_locations_def)
      with f1 show ?thesis by auto
    next
      case (Inr a)
      obtain r2 h2 t2 where l2: "toPBF_loop eng pl targets [] h1 t1 = (r2, h2, t2)"
        by (cases "toPBF_loop eng pl targets [] h1 t1")
      from toPBF_loop_frame [OF l2] obtain ls2 where
        f2: "mode_costing h2 = mode_costing h1" "t2 = t1 @ map Call_toPBF ls2" by auto
      from assms p \<open>pr = Inr pl\<close> l1 Inr l2 have "h' = h2" "t = t2"
        by (auto simp: project_locations_def split: sum.splits)
      with f1 f2 show ?thesis by auto
    qed
  qed
  then show "mode_costing h' = mode_costing h"
    and "\<exists>tl. t = LOG_INFO [S ''Projecting '', N (int (length sources + length targets)),
                           S '' locations...'']
               # Call_projector (sources @ targets) m costing # tl
            \<and> (\<forall>ev \<in> set tl. \<not> solver_call ev)"
    by blast+
qed

lemma no_solver_call:
  "\<forall>ev \<in> set t. \<not> solver_call ev \<Longrightarrow> Call_SourceToTarget srcs tgts mc tm thr \<notin> set t"
  by auto

lemma project_locations_no_solver:
  assumes "project_locations eng h m costing sources targets = (r, h', t)"
  shows "Call_SourceToTarget srcs tgts mc tm thr \<notin> set t"
proof -
  from project_locations_frame(2) [OF assms] have "\<forall>ev \<in> set t. \<not> solver_call ev"
    by auto
  then show ?thesis by (rule no_solver_call)
qed

lemma toPBF_loop_Inl:
  "toPBF_loop eng pl es acc h t = (Inl x, h', t') \<Longrightarrow> x = out_of_range"
proof (induction es arbitrary: acc h t)
  case Nil
  then show ?case by simp
next
  case (Cons e es)
  then show ?case
    by (cases "pl e") (auto split: prod.splits)
qed

lemma project_locations_missing:
  assumes p: "projector eng (sources @ targets) m costing (engine_state h) = (Inr pl, w)"
    and e: "e \<in> set (sources @ targets)" and n: "pl e = None"
  shows "fst (project_locations eng h m costing sources targets) = Inl out_of_range"
proof -
  let ?h0 = "h\<lparr>engine_state := w\<rparr>"
  let ?t0 = "[LOG_INFO [S ''Projecting '', N (int (length sources + length targets)),
                         S '' locations...''],
             Call_projector (sources @ targets) m costing,
             LOG_INFO [S ''Projecting locations done.'']]"
  obtain r1 h1 t1 where l1: "toPBF_loop eng pl sources [] ?h0 ?t0 = (r1, h1, t1)"
    by (cases "toPBF_loop eng pl sources [] ?h0 ?t0")
  show ?thesis
  proof (cases r1)
    case (Inl x)
    with l1 have "x = out_of_range" by (auto dest: toPBF_loop_Inl)
    with p l1 Inl show ?thesis by (simp add: project_locations_def)
  next
    case (Inr a)
    have "e \<notin> set sources"
    proof
      assume "e \<in> set sources"
      then have "fst (toPBF_loop eng pl sources [] ?h0 ?t0) = Inl out_of_range"
        using n by (rule toPBF_loop_missing)
      with l1 Inr show False by simp
    qed
    with e have "e \<in> set targets" by simp
    then have "fst (toPBF_loop eng pl targets [] h1 t1) = Inl out_of_range"
      using n by (rule toPBF_loop_missing)
    with p l1 Inr show ?thesis
      by (auto simp: project_locations_def split: prod.splits sum.splits)
  qed
qed

lemma compute_matrix_frame:
  assumes "compute_matrix eng h m max_d ps pt = (r, h', t)"
  shows "mode_costing h' = mode_costing h"
  using assms
  by (auto simp: compute_matrix_def Let_def split: sum.splits prod.splits)

lemma compute_matrix_calls:
  assumes "compute_matrix eng h m max_d ps pt = (r, h', t)"
    and "Call_SourceToTarget srcs tgts mc tm thr \<in> set t"
  shows "thr = get_distance (fmul eng) (thor eng) m (float_of eng max_d)
         \<and> mode_map_at m = Inr tm \<and> srcs = ps \<and> tgts = pt \<and> mc = mode_costing h"
  using assms
  by (auto simp: compute_matrix_def Let_def split: sum.splits prod.splits)

lemma compute_matrix_Inr:
  assumes "compute_matrix eng h m max_d ps pt = (Inr res, h', t)"
  shows "\<exists>tm w. mode_map_at m = Inr tm
     \<and> SourceToTarget eng ps pt (mode_costing h) tm
          (get_distance (fmul eng) (thor eng) m (float_of eng max_d)) (engine_state h)
        = (Inr res, w)
     \<and> Call_SourceToTarget ps pt (mode_costing h) tm
          (get_distance (fmul eng) (thor eng) m (float_of eng max_d)) \<in> set t"
  using assms
  by (auto simp: compute_matrix_def Let_def split: sum.splits prod.splits)

lemma build_response_frame:
  assumes "build_response bld eng h max_d sources targets res = (r, h', t)"
  shows "h' = h" and "\<forall>ev \<in> set t. \<not> solver_call ev"
  using assms
  by (auto simp: build_response_def split: if_splits prod.splits)

lemma build_response_Inr:
  assumes "build_response bld eng h max_d sources targets res = (Inr response, h', t)"
  shows "response = \<lparr>rows = [\<lparr>routing_response =
            fst (classify_loop (eq_kMaxCost eng) max_d res ([], 0, 0))\<rparr>]\<rparr>"
    and "t = [LOG_INFO [S ''Request done with '',
                 N (fst (snd (classify_loop (eq_kMaxCost eng) max_d res ([], 0, 0)))),
                 S '' unknown and '',
                 N (snd (snd (classify_loop (eq_kMaxCost eng) max_d res ([], 0, 0)))),
                 S '' unreached'']]"
    and "NDEBUG bld \<or> length res = length sources * length targets"
  using assms
  by (auto simp: build_response_def split: if_splits prod.splits)

lemma trim_graph_frame:
  assumes "trim_graph eng h = (h', t)"
  shows "mode_costing h' = mode_costing h" and "\<forall>ev \<in> set t. \<not> solver_call ev"
  using assms
  by (auto simp: trim_graph_def split: if_splits)

text \<open>The runs of handle on a request of a valid kind for a supported mode.\<close>

lemma handle_cases:
  assumes run: "handle bld eng h request = (r, h', t)"
    and kind: "requested_api request = street_network_routing_matrix
               \<or> requested_api request = direct_path"
    and tm: "mode_map (mode (sn_routing_matrix request)) = Some tm"
    and c: "to_costing (mode (sn_routing_matrix request)) = Inr c"
    and h1: "h1 = h\<lparr>mode_costing := (mode_costing h)
           [TravelMode_value tm := Some (Create eng c
              (make_costing_option (mul_double eng) (mode (sn_routing_matrix request))
                 (speed (sn_routing_matrix request))))]\<rparr>"
    and t1: "t1 = [LOG_INFO [S ''Processing matrix request '',
                            N (int (length (origins (sn_routing_matrix request)))), S ''x'',
                            N (int (length (destinations (sn_routing_matrix request))))],
                   Call_Create c (make_costing_option (mul_double eng)
                     (mode (sn_routing_matrix request)) (speed (sn_routing_matrix request)))]"
    and sources: "sources = map place (origins (sn_routing_matrix request))"
    and targets: "targets = map place (destinations (sn_routing_matrix request))"
  obtains
    (project_failed) e t2 where
      "project_locations eng h1 (mode (sn_routing_matrix request))
         (mode_costing h1 ! TravelMode_value tm) sources targets = (Inl e, h', t2)"
      "r = Inl e" "t = t1 @ t2"
  | (matrix_failed) ps pt h2 t2 e t3 where
      "project_locations eng h1 (mode (sn_routing_matrix request))
         (mode_costing h1 ! TravelMode_value tm) sources targets = (Inr (ps, pt), h2, t2)"
      "compute_matrix eng h2 (mode (sn_routing_matrix request))
         (max_duration (sn_routing_matrix request)) ps pt = (Inl e, h', t3)"
      "r = Inl e" "t = t1 @ t2 @ t3"
  | (response_failed) ps pt h2 t2 res h3 t3 e t4 where
      "project_locations eng h1 (mode (sn_routing_matrix request))
         (mode_costing h1 ! TravelMode_value tm) sources targets = (Inr (ps, pt), h2, t2)"
      "compute_matrix eng h2 (mode (sn_routing_matrix request))
         (max_duration (sn_routing_matrix request)) ps pt = (Inr res, h3, t3)"
      "build_response bld eng h3 (max_duration (sn_routing_matrix request))
         sources targets res = (Inl e, h', t4)"
      "r = Inl e" "t = t1 @ t2 @ t3 @ t4"
  | (completed) ps pt h2 t2 res h3 t3 response h4 t4 t5 where
      "project_locations eng h1 (mode (sn_routing_matrix request))
         (mode_costing h1 ! TravelMode_value tm) sources targets = (Inr (ps, pt), h2, t2)"
      "compute_matrix eng h2 (mode (sn_routing_matrix request))
         (max_duration (sn_routing_matrix request)) ps pt = (Inr res, h3, t3)"
      "build_response bld eng h3 (max_duration (sn_routing_matrix request))
         sources targets res = (Inr response, h4, t4)"
      "trim_graph eng h4 = (h', t5)"
      "r = Inr response" "t = t1 @ t2 @ t3 @ t4 @ t5"
  using run kind
  unfolding handle_def Let_def
    assign_mode_costing_supported [OF tm c] read_mode_costing_supported [OF tm]
    h1 t1 sources targets
  by (auto split: sum.splits prod.splits if_splits)

lemma handle_unmapped_mode:
  assumes kind: "requested_api request = street_network_routing_matrix
               \<or> requested_api request = direct_path"
    and n: "mode_map (mode (sn_routing_matrix request)) = None"
  shows "handle bld eng h request =
           (Inl (case assignment_order bld of
                   right_operand_first \<Rightarrow> invalid_argument ''Bad to_costing parameter''
                 | left_operand_first \<Rightarrow> out_of_range),
            h,
            [LOG_INFO [S ''Processing matrix request '',
                       N (int (length (origins (sn_routing_matrix request)))), S ''x'',
                       N (int (length (destinations (sn_routing_matrix request))))]])"
  using kind unfolding handle_def Let_def assign_mode_costing_unsupported [OF n]
  by auto

lemma handle_trace_prefix:
  assumes run: "handle bld eng h request = (r, h', t)"
    and kind: "requested_api request = street_network_routing_matrix
               \<or> requested_api request = direct_path"
    and tm: "mode_map (mode (sn_routing_matrix request)) = Some tm"
    and c: "to_costing (mode (sn_routing_matrix request)) = Inr c"
  shows "\<exists>tl. t = LOG_INFO [S ''Processing matrix request '',
                            N (int (length (origins (sn_routing_matrix request)))), S ''x'',
                            N (int (length (destinations (sn_routing_matrix request))))]
               # Call_Create c (make_costing_option (mul_double eng)
                     (mode (sn_routing_matrix request)) (speed (sn_routing_matrix request)))
               # tl"
  using run kind tm c refl refl refl refl
  by (cases rule: handle_cases) simp_all

lemma handle_Inr:
  assumes run: "handle bld eng h request = (Inr response, h', t)"
    and kind: "requested_api request = street_network_routing_matrix
               \<or> requested_api request = direct_path"
  obtains ps pt mc tm thr w w' res where
    "Call_SourceToTarget ps pt mc tm thr \<in> set t"
    "SourceToTarget eng ps pt mc tm thr w = (Inr res, w')"
    "response = \<lparr>rows = [\<lparr>routing_response =
        fst (classify_loop (eq_kMaxCost eng) (max_duration (sn_routing_matrix request)) res
               ([], 0, 0))\<rparr>]\<rparr>"
    "LOG_INFO [S ''Request done with '',
       N (fst (snd (classify_loop (eq_kMaxCost eng) (max_duration (sn_routing_matrix request))
                      res ([], 0, 0)))),
       S '' unknown and '',
       N (snd (snd (classify_loop (eq_kMaxCost eng) (max_duration (sn_routing_matrix request))
                      res ([], 0, 0)))),
       S '' unreached''] \<in> set t"
    "NDEBUG bld \<or> length res = length (origins (sn_routing_matrix request))
                                  * length (destinations (sn_routing_matrix request))"
proof -
  let ?m = "mode (sn_routing_matrix request)"
  have "mode_map ?m \<noteq> None"
  proof
    assume "mode_map ?m = None"
    from handle_unmapped_mode [OF kind this, of bld eng h] run show False by simp
  qed
  then obtain tm' where tm': "mode_map ?m = Some tm'" by auto
  then obtain c where c: "to_costing ?m = Inr c" by (auto dest: supported_mode)
  from run kind tm' c refl refl refl refl show ?thesis
  proof (cases rule: handle_cases)
    case (completed ps pt h2 t2 res h3 t3 response' h4 t4 t5)
    from completed(5) have r: "response' = response" by simp
    from compute_matrix_Inr [OF completed(2)] obtain tm w where
      s: "SourceToTarget eng ps pt (mode_costing h2) tm
            (get_distance (fmul eng) (thor eng) ?m
               (float_of eng (max_duration (sn_routing_matrix request)))) (engine_state h2)
          = (Inr res, w)"
      and e: "Call_SourceToTarget ps pt (mode_costing h2) tm
            (get_distance (fmul eng) (thor eng) ?m
               (float_of eng (max_duration (sn_routing_matrix request)))) \<in> set t3"
      by blast
    from e completed(6) have e': "Call_SourceToTarget ps pt (mode_costing h2) tm
            (get_distance (fmul eng) (thor eng) ?m
               (float_of eng (max_duration (sn_routing_matrix request)))) \<in> set t"
      by simp
    note b = build_response_Inr [OF completed(3) [unfolded r]]
    from b(2) completed(6) have l: "LOG_INFO [S ''Request done with '',
       N (fst (snd (classify_loop (eq_kMaxCost eng) (max_duration (sn_routing_matrix request))
                      res ([], 0, 0)))),
       S '' unknown and '',
       N (snd (snd (classify_loop (eq_kMaxCost eng) (max_duration (sn_routing_matrix request))
                      res ([], 0, 0)))),
       S '' unreached''] \<in> set t"
      by simp
    from b(3) have "NDEBUG bld \<or> length res = length (origins (sn_routing_matrix request))
                                  * length (destinations (sn_routing_matrix request))"
      by simp
    with e' s b(1) l show ?thesis by (rule that)
  qed simp_all
qed

lemma classify_loop_statuses:
  "map routing_status (fst (classify_loop p d res ([], 0, 0))) =
     map (\<lambda>r. if p (time r) then unknown else if d < time r then unreached else reached) res"
  by (simp add: classify_loop_row comp_def)

lemma classify_loop_durations:
  "map duration (fst (classify_loop p d res ([], 0, 0))) = map time res"
  by (simp add: classify_loop_row comp_def)

lemma classify_loop_length:
  "length (fst (classify_loop p d res ([], 0, 0))) = length res"
  by (simp add: classify_loop_row)

lemma handle_mode_costing:
  assumes run: "handle bld eng h request = (r, h', t)"
    and kind: "requested_api request = street_network_routing_matrix
               \<or> requested_api request = direct_path"
    and i: "mode_index (mode (sn_routing_matrix request)) = Inr i"
    and c: "to_costing (mode (sn_routing_matrix request)) = Inr c"
  shows "mode_costing h' = (mode_costing h)
           [i := Some (Create eng c (make_costing_option (mul_double eng)
                   (mode (sn_routing_matrix request)) (speed (sn_routing_matrix request))))]"
proof -
  from i obtain tm where tm: "mode_map (mode (sn_routing_matrix request)) = Some tm"
    and itm: "i = TravelMode_value tm"
    by (auto simp: mode_index_Inr)
  from run kind tm c refl refl refl refl show ?thesis
  proof (cases rule: handle_cases)
    case (project_failed e t2)
    from project_locations_frame(1) [OF project_failed(1)] show ?thesis
      by (simp add: itm)
  next
    case (matrix_failed ps pt h2 t2 e t3)
    from project_locations_frame(1) [OF matrix_failed(1)]
      compute_matrix_frame [OF matrix_failed(2)]
    show ?thesis by (simp add: itm)
  next
    case (response_failed ps pt h2 t2 res h3 t3 e t4)
    from project_locations_frame(1) [OF response_failed(1)]
      compute_matrix_frame [OF response_failed(2)]
      build_response_frame(1) [OF response_failed(3)]
    show ?thesis by (simp add: itm)
  next
    case (completed ps pt h2 t2 res h3 t3 response h4 t4 t5)
    from project_locations_frame(1) [OF completed(1)]
      compute_matrix_frame [OF completed(2)]
      build_response_frame(1) [OF completed(3)]
      trim_graph_frame(1) [OF completed(4)]
    show ?thesis by (simp add: itm)
  qed
qed

subsection \<open>Running the example\<close>

lemmas example_defs =
  example_run_def scenario_engine_def
  handle_def assign_mode_costing_def read_mode_costing_def project_locations_def
  compute_matrix_def build_response_def trim_graph_def
  example_engine_def example_handler_def example_request_def example_request_at_def
  example_places_def times_of_def
  debug_build_def
  to_costing_def mode_index_def mode_map_at_def mode_map_def get_distance_def
  make_costing_option_def set_walking_speed_def default_directions_options_eq
  Response_empty_def Let_def

lemma Handler_new_example: "Handler_new (example_engine known res) 0 = Inr example_handler"
  by (simp add: Handler_new_def example_defs kMaxTravelMode_def numeral_eq_Suc)

section \<open>The claims\<close>

text \<open>
  In the example runs below the solver returns the six durations of the scenario, the
  second being the sentinel of the example engine.
\<close>

text \<open>
  C1. The loop of lines 148 to 159 gives every result the status \<open>unknown\<close> when its
  time passes the test against \<^verbatim>\<open>kMaxCost\<close>, otherwise \<open>unreached\<close> when its time is
  above \<^verbatim>\<open>max_duration\<close>, otherwise \<open>reached\<close>. The sentinel test comes first: a
  sentinel time is \<open>unknown\<close> for every \<^verbatim>\<open>max_duration\<close>, zero included. The row of a
  response that \<^verbatim>\<open>handle\<close> returns is the result of this loop on what the solver
  returned.
\<close>

theorem classify_sentinel_before_threshold:
  "map routing_status (fst (classify_loop is_max max_d res ([], 0, 0))) =
     map (\<lambda>r. if is_max (time r) then unknown
               else if max_d < time r then unreached else reached) res
   \<and> (\<forall>i < length res. is_max (time (res ! i)) \<longrightarrow>
         routing_status (fst (classify_loop is_max max_d res ([], 0, 0)) ! i) = unknown
         \<and> routing_status (fst (classify_loop is_max 0 res ([], 0, 0)) ! i) = unknown)
   \<and> (\<forall>i < length res. \<not> is_max (time (res ! i)) \<longrightarrow>
         routing_status (fst (classify_loop is_max max_d res ([], 0, 0)) ! i)
           = (if max_d < time (res ! i) then unreached else reached))
   \<and> (\<forall>response h' t.
         handle bld eng h request = (Inr response, h', t)
         \<and> (requested_api request = street_network_routing_matrix
              \<or> requested_api request = direct_path)
         \<longrightarrow> (\<exists>ps pt mc tm thr w w' res'.
                Call_SourceToTarget ps pt mc tm thr \<in> set t
              \<and> SourceToTarget eng ps pt mc tm thr w = (Inr res', w')
              \<and> rows response = [\<lparr>routing_response =
                    fst (classify_loop (eq_kMaxCost eng)
                           (max_duration (sn_routing_matrix request)) res' ([], 0, 0))\<rparr>]))"
proof (intro conjI allI impI)
  show "map routing_status (fst (classify_loop is_max max_d res ([], 0, 0))) =
     map (\<lambda>r. if is_max (time r) then unknown
               else if max_d < time r then unreached else reached) res"
    by (rule classify_loop_statuses)
next
  fix i assume "i < length res" "is_max (time (res ! i))"
  then show "routing_status (fst (classify_loop is_max max_d res ([], 0, 0)) ! i) = unknown"
    by (simp add: classify_loop_row)
next
  fix i assume "i < length res" "is_max (time (res ! i))"
  then show "routing_status (fst (classify_loop is_max 0 res ([], 0, 0)) ! i) = unknown"
    by (simp add: classify_loop_row)
next
  fix i assume "i < length res" "\<not> is_max (time (res ! i))"
  then show "routing_status (fst (classify_loop is_max max_d res ([], 0, 0)) ! i)
           = (if max_d < time (res ! i) then unreached else reached)"
    by (simp add: classify_loop_row)
next
  fix response h' t
  assume a: "handle bld eng h request = (Inr response, h', t)
         \<and> (requested_api request = street_network_routing_matrix
              \<or> requested_api request = direct_path)"
  then have run: "handle bld eng h request = (Inr response, h', t)"
    and kind: "requested_api request = street_network_routing_matrix
              \<or> requested_api request = direct_path"
    by simp_all
  from run kind show "\<exists>ps pt mc tm thr w w' res'.
                Call_SourceToTarget ps pt mc tm thr \<in> set t
              \<and> SourceToTarget eng ps pt mc tm thr w = (Inr res', w')
              \<and> rows response = [\<lparr>routing_response =
                    fst (classify_loop (eq_kMaxCost eng)
                           (max_duration (sn_routing_matrix request)) res' ([], 0, 0))\<rparr>]"
  proof (rule handle_Inr)
    fix ps pt mc tm thr w w' res'
    assume e: "Call_SourceToTarget ps pt mc tm thr \<in> set t"
      and s: "SourceToTarget eng ps pt mc tm thr w = (Inr res', w')"
      and r: "response = \<lparr>rows = [\<lparr>routing_response =
        fst (classify_loop (eq_kMaxCost eng) (max_duration (sn_routing_matrix request)) res'
               ([], 0, 0))\<rparr>]\<rparr>"
    have "rows response = [\<lparr>routing_response =
        fst (classify_loop (eq_kMaxCost eng) (max_duration (sn_routing_matrix request)) res'
               ([], 0, 0))\<rparr>]"
      by (simp add: r)
    with e s show ?thesis by blast
  qed
qed

text \<open>The scenario's durations, with \<^verbatim>\<open>max_duration\<close> 600 and 0, and the run that returns them.\<close>

theorem classify_sentinel_before_threshold_witness:
  "map routing_status
     (fst (classify_loop (eq_kMaxCost scenario_engine) 600
             (times_of [100, 100000000, 700, 50, 599, 601]) ([], 0, 0)))
     = [reached, unknown, unreached, reached, reached, unreached]
   \<and> routing_status
       (fst (classify_loop (eq_kMaxCost scenario_engine) 0
               (times_of [100, 100000000, 700, 50, 599, 601]) ([], 0, 0)) ! 1) = unknown
   \<and> fst (example_run debug_build scenario_engine street_network_routing_matrix ''walking'')
       = Inr \<lparr>rows = [\<lparr>routing_response =
           fst (classify_loop (eq_kMaxCost scenario_engine) 600
                  (times_of [100, 100000000, 700, 50, 599, 601]) ([], 0, 0))\<rparr>]\<rparr>"
proof -
  let ?res = "times_of [100, 100000000, 700, 50, 599, 601]"
  let ?request = "example_request street_network_routing_matrix ''walking'' 600"
  let ?run = "example_run debug_build scenario_engine street_network_routing_matrix ''walking''"
  note c = classify_sentinel_before_threshold
    [of "eq_kMaxCost scenario_engine" 600 ?res debug_build scenario_engine example_handler
        ?request]
  from c have 1: "map routing_status
       (fst (classify_loop (eq_kMaxCost scenario_engine) 600 ?res ([], 0, 0)))
     = map (\<lambda>r. if eq_kMaxCost scenario_engine (time r) then unknown
               else if 600 < time r then unreached else reached) ?res"
    by (rule conjunct1)
  have i: "1 < length ?res" "eq_kMaxCost scenario_engine (time (?res ! 1))"
    by (simp_all add: times_of_def scenario_engine_def example_engine_def)
  from c i have 2: "routing_status
       (fst (classify_loop (eq_kMaxCost scenario_engine) 0 ?res ([], 0, 0)) ! 1) = unknown"
    by blast
  have run: "handle debug_build scenario_engine example_handler ?request
               = (Inr (projr (fst ?run)), fst (snd ?run), snd (snd ?run))
             \<and> (requested_api ?request = street_network_routing_matrix
                  \<or> requested_api ?request = direct_path)"
    by (simp add: example_defs)
  from c run obtain ps pt mc tm thr w w' res' where
    s: "SourceToTarget scenario_engine ps pt mc tm thr w = (Inr res', w')"
    and r: "rows (projr (fst ?run)) = [\<lparr>routing_response =
              fst (classify_loop (eq_kMaxCost scenario_engine)
                     (max_duration (sn_routing_matrix ?request)) res' ([], 0, 0))\<rparr>]"
    by blast
  from s have "res' = ?res"
    by (simp add: scenario_engine_def example_engine_def)
  with r have 3: "fst ?run = Inr \<lparr>rows = [\<lparr>routing_response =
           fst (classify_loop (eq_kMaxCost scenario_engine) 600 ?res ([], 0, 0))\<rparr>]\<rparr>"
    by (simp add: example_defs)
  from 1 2 3 show ?thesis
    by (simp add: times_of_def scenario_engine_def example_engine_def)
qed

text \<open>
  C2. A request of a valid kind for one of the three modes calls the factory with the
  options of \<^verbatim>\<open>make_costing_option\<close>: the twelve slots of the default options, in which
  \<^verbatim>\<open>walking_speed\<close> of the pedestrian slot and of the bicycle slot is the request's speed
  multiplied by the constant 3.6, and nothing else is set. The auto slot is the one of the
  default options, its \<^verbatim>\<open>walking_speed\<close> not set, whatever the speed. Read as numbers:
  under every reading \<open>v\<close> of floats for which the multiplication of C++ is the product
  rounded by \<open>rnd\<close>, the value set is \<open>rnd (v speed * 3.6)\<close>.
\<close>

theorem make_costing_option_speeds:
  assumes run: "handle bld eng h request = (r, h', t)"
    and kind: "requested_api request = street_network_routing_matrix
               \<or> requested_api request = direct_path"
    and m: "mode (sn_routing_matrix request) \<in> {''walking'', ''bike'', ''car''}"
    and opts: "opts = make_costing_option (mul_double eng)
                 (mode (sn_routing_matrix request)) (speed (sn_routing_matrix request))"
  shows "(\<exists>c. to_costing (mode (sn_routing_matrix request)) = Inr c
              \<and> Call_Create c opts \<in> set t)
       \<and> opts = \<lparr>costing_options = (replicate 12 \<lparr>walking_speed = None\<rparr>)
            [Costing_value pedestrian :=
               \<lparr>walking_speed = Some (mul_double eng (speed (sn_routing_matrix request)) 3.6)\<rparr>,
             Costing_value bicycle :=
               \<lparr>walking_speed = Some (mul_double eng (speed (sn_routing_matrix request)) 3.6)\<rparr>]\<rparr>
       \<and> length (costing_options opts) = 12
       \<and> walking_speed (costing_options opts ! Costing_value pedestrian)
           = Some (mul_double eng (speed (sn_routing_matrix request)) 3.6)
       \<and> walking_speed (costing_options opts ! Costing_value bicycle)
           = Some (mul_double eng (speed (sn_routing_matrix request)) 3.6)
       \<and> costing_options opts ! Costing_value auto_costing
           = costing_options default_directions_options ! Costing_value auto_costing
       \<and> walking_speed (costing_options opts ! Costing_value auto_costing) = None
       \<and> (\<forall>v rnd. (\<forall>x c. v (mul_double eng x c) = rnd (v x * c)) \<longrightarrow>
             map_option v (walking_speed (costing_options opts ! Costing_value pedestrian))
               = Some (rnd (v (speed (sn_routing_matrix request)) * 3.6))
           \<and> map_option v (walking_speed (costing_options opts ! Costing_value bicycle))
               = Some (rnd (v (speed (sn_routing_matrix request)) * 3.6)))"
proof -
  from m obtain tm where tm: "mode_map (mode (sn_routing_matrix request)) = Some tm"
    by (auto simp: mode_map_Some)
  then obtain c where c: "to_costing (mode (sn_routing_matrix request)) = Inr c"
    by (auto dest: supported_mode)
  from handle_trace_prefix [OF run kind tm c] have "Call_Create c opts \<in> set t"
    unfolding opts by auto
  with c have 1: "\<exists>c. to_costing (mode (sn_routing_matrix request)) = Inr c
                 \<and> Call_Create c opts \<in> set t"
    by (intro exI conjI)
  have 2: "opts = \<lparr>costing_options = (replicate 12 \<lparr>walking_speed = None\<rparr>)
            [Costing_value pedestrian :=
               \<lparr>walking_speed = Some (mul_double eng (speed (sn_routing_matrix request)) 3.6)\<rparr>,
             Costing_value bicycle :=
               \<lparr>walking_speed = Some (mul_double eng (speed (sn_routing_matrix request)) 3.6)\<rparr>]\<rparr>"
    unfolding opts by (rule make_costing_option_eq)
  have 3: "walking_speed (costing_options opts ! Costing_value pedestrian)
           = Some (mul_double eng (speed (sn_routing_matrix request)) 3.6)"
    and 4: "walking_speed (costing_options opts ! Costing_value bicycle)
           = Some (mul_double eng (speed (sn_routing_matrix request)) 3.6)"
    and 5: "length (costing_options opts) = 12"
    and 6: "costing_options opts ! Costing_value auto_costing
           = costing_options default_directions_options ! Costing_value auto_costing"
    and 7: "walking_speed (costing_options opts ! Costing_value auto_costing) = None"
    by (simp_all add: opts make_costing_option_slots default_directions_options_eq)
  have 8: "map_option v (walking_speed (costing_options opts ! Costing_value pedestrian))
               = Some (rnd (v (speed (sn_routing_matrix request)) * 3.6))
           \<and> map_option v (walking_speed (costing_options opts ! Costing_value bicycle))
               = Some (rnd (v (speed (sn_routing_matrix request)) * 3.6))"
    if "\<forall>x c. v (mul_double eng x c) = rnd (v x * c)" for v rnd
    unfolding 3 4 using that by simp
  from 1 2 3 4 5 6 7 8 show ?thesis by blast
qed

text \<open>
  The example request for the car, at the speed 1.4: the factory gets the product with
  3.6 in the pedestrian and the bicycle slot, 5.04 when the arithmetic is exact, and the
  auto slot bare.
\<close>

theorem make_costing_option_speeds_witness:
  "Call_Create auto_costing
     \<lparr>costing_options = (replicate 12 \<lparr>walking_speed = None\<rparr>)
        [Costing_value pedestrian := \<lparr>walking_speed = Some (Times_double (Num 1.4) 3.6)\<rparr>,
         Costing_value bicycle := \<lparr>walking_speed = Some (Times_double (Num 1.4) 3.6)\<rparr>]\<rparr>
     \<in> set (snd (snd (example_run debug_build scenario_engine
                         street_network_routing_matrix ''car'')))
   \<and> map_option (float_value (\<lambda>n. 1))
       (walking_speed
          (costing_options (make_costing_option (mul_double scenario_engine) ''car'' (Num 1.4))
             ! Costing_value pedestrian)) = Some 5.04
   \<and> map_option (float_value (\<lambda>n. 1))
       (walking_speed
          (costing_options (make_costing_option (mul_double scenario_engine) ''car'' (Num 1.4))
             ! Costing_value bicycle)) = Some 5.04
   \<and> walking_speed
       (costing_options (make_costing_option (mul_double scenario_engine) ''car'' (Num 1.4))
          ! Costing_value auto_costing) = None"
proof -
  let ?request = "example_request street_network_routing_matrix ''car'' 600"
  let ?run = "example_run debug_build scenario_engine street_network_routing_matrix ''car''"
  let ?opts = "make_costing_option (mul_double scenario_engine) ''car'' (Num 1.4)"
  have run: "handle debug_build scenario_engine example_handler ?request
               = (fst ?run, fst (snd ?run), snd (snd ?run))"
    by (simp add: example_run_def)
  have kind: "requested_api ?request = street_network_routing_matrix
              \<or> requested_api ?request = direct_path"
    by (simp add: example_request_def)
  have m: "mode (sn_routing_matrix ?request) \<in> {''walking'', ''bike'', ''car''}"
    by (simp add: example_request_def)
  have rq: "mode (sn_routing_matrix ?request) = ''car''"
    "speed (sn_routing_matrix ?request) = Num 1.4"
    by (simp_all add: example_request_def)
  have opts: "?opts = make_costing_option (mul_double scenario_engine)
                 (mode (sn_routing_matrix ?request)) (speed (sn_routing_matrix ?request))"
    by (simp add: rq)
  have tc: "to_costing ''car'' = Inr c \<longleftrightarrow> c = auto_costing" for c
    by (auto simp: to_costing_def)
  have md: "mul_double scenario_engine = Times_double"
    by (simp add: scenario_engine_def example_engine_def)
  have v: "\<forall>x c. float_value (\<lambda>n. 1) (mul_double scenario_engine x c)
                   = (\<lambda>y. y) (float_value (\<lambda>n. 1) x * c)"
    by (simp add: md)
  note th = make_costing_option_speeds [OF run kind m opts, unfolded rq]
  from th have "\<exists>c. to_costing ''car'' = Inr c \<and> Call_Create c ?opts \<in> set (snd (snd ?run))"
    by (rule conjunct1)
  then have 1: "Call_Create auto_costing ?opts \<in> set (snd (snd ?run))"
    by (simp add: tc)
  from th have 2: "?opts = \<lparr>costing_options = (replicate 12 \<lparr>walking_speed = None\<rparr>)
        [Costing_value pedestrian :=
           \<lparr>walking_speed = Some (mul_double scenario_engine (Num 1.4) 3.6)\<rparr>,
         Costing_value bicycle :=
           \<lparr>walking_speed = Some (mul_double scenario_engine (Num 1.4) 3.6)\<rparr>]\<rparr>"
    by blast
  from th have 3: "walking_speed (costing_options ?opts ! Costing_value auto_costing) = None"
    by blast
  from th v have 4: "map_option (float_value (\<lambda>n. 1))
          (walking_speed (costing_options ?opts ! Costing_value pedestrian))
        = Some ((\<lambda>y. y) (float_value (\<lambda>n. 1) (Num 1.4) * 3.6))
      \<and> map_option (float_value (\<lambda>n. 1))
          (walking_speed (costing_options ?opts ! Costing_value bicycle))
        = Some ((\<lambda>y. y) (float_value (\<lambda>n. 1) (Num 1.4) * 3.6))"
    by blast
  from 1 2 have "Call_Create auto_costing
     \<lparr>costing_options = (replicate 12 \<lparr>walking_speed = None\<rparr>)
        [Costing_value pedestrian := \<lparr>walking_speed = Some (Times_double (Num 1.4) 3.6)\<rparr>,
         Costing_value bicycle := \<lparr>walking_speed = Some (Times_double (Num 1.4) 3.6)\<rparr>]\<rparr>
     \<in> set (snd (snd ?run))"
    by (simp add: md)
  with 3 4 show ?thesis by simp
qed

text \<open>
  C3. For a mode that is none of the three, mode resolution fails: \<^verbatim>\<open>to_costing\<close>
  throws \<^verbatim>\<open>std::invalid_argument\<close>. A request for such a mode never changes the
  handler, every slot of \<^verbatim>\<open>mode_costing\<close> included. If its kind is valid it fails while
  the operands of the assignment of line 116 are evaluated, before anything is written:
  there is no response, and nothing but the first log line has happened. With the right
  operand evaluated first, as C++17 orders an assignment, the failure that leaves
  \<^verbatim>\<open>handle\<close> is that \<^verbatim>\<open>std::invalid_argument\<close>.
\<close>

theorem handle_unsupported_mode:
  assumes m: "mode (sn_routing_matrix request) \<notin> {''walking'', ''bike'', ''car''}"
  shows "to_costing (mode (sn_routing_matrix request))
           = Inl (invalid_argument ''Bad to_costing parameter'')
       \<and> fst (snd (handle bld eng h request)) = h
       \<and> (requested_api request = street_network_routing_matrix
            \<or> requested_api request = direct_path
          \<longrightarrow> (\<exists>e. handle bld eng h request =
                 (Inl e, h,
                  [LOG_INFO [S ''Processing matrix request '',
                             N (int (length (origins (sn_routing_matrix request)))), S ''x'',
                             N (int (length (destinations (sn_routing_matrix request))))]])))
       \<and> ((requested_api request = street_network_routing_matrix
             \<or> requested_api request = direct_path)
            \<and> assignment_order bld = right_operand_first
          \<longrightarrow> handle bld eng h request =
                (Inl (invalid_argument ''Bad to_costing parameter''), h,
                 [LOG_INFO [S ''Processing matrix request '',
                            N (int (length (origins (sn_routing_matrix request)))), S ''x'',
                            N (int (length (destinations (sn_routing_matrix request))))]]))"
proof -
  let ?t = "[LOG_INFO [S ''Processing matrix request '',
                       N (int (length (origins (sn_routing_matrix request)))), S ''x'',
                       N (int (length (destinations (sn_routing_matrix request))))]]"
  let ?kind = "requested_api request = street_network_routing_matrix
               \<or> requested_api request = direct_path"
  from m have n: "mode_map (mode (sn_routing_matrix request)) = None"
    by (simp add: mode_map_None)
  have 1: "to_costing (mode (sn_routing_matrix request))
           = Inl (invalid_argument ''Bad to_costing parameter'')"
    using n by (rule to_costing_unsupported)
  have u: "handle bld eng h request =
             (Inl (case assignment_order bld of
                     right_operand_first \<Rightarrow> invalid_argument ''Bad to_costing parameter''
                   | left_operand_first \<Rightarrow> out_of_range), h, ?t)" if ?kind
    using that n by (rule handle_unmapped_mode)
  have 2: "fst (snd (handle bld eng h request)) = h"
  proof (cases ?kind)
    case True
    then show ?thesis by (simp add: u)
  next
    case False
    then show ?thesis by (simp add: handle_def)
  qed
  have 3: "\<exists>e. handle bld eng h request = (Inl e, h, ?t)" if ?kind
    using u [OF that] by blast
  have 4: "handle bld eng h request
             = (Inl (invalid_argument ''Bad to_costing parameter''), h, ?t)"
    if "?kind \<and> assignment_order bld = right_operand_first"
    using that u by simp
  from 1 2 3 4 show ?thesis by blast
qed

text \<open>The mode \<open>bus\<close>: \<^verbatim>\<open>std::invalid_argument\<close>, the handler untouched.\<close>

theorem handle_unsupported_mode_witness:
  "example_run debug_build scenario_engine street_network_routing_matrix ''bus''
     = (Inl (invalid_argument ''Bad to_costing parameter''), example_handler,
        [LOG_INFO [S ''Processing matrix request '', N 2, S ''x'', N 3]])
   \<and> to_costing ''bus'' = Inl (invalid_argument ''Bad to_costing parameter'')"
proof -
  let ?request = "example_request street_network_routing_matrix ''bus'' 600"
  have m: "mode (sn_routing_matrix ?request) \<notin> {''walking'', ''bike'', ''car''}"
    by (simp add: example_request_def)
  have k: "(requested_api ?request = street_network_routing_matrix
              \<or> requested_api ?request = direct_path)
           \<and> assignment_order debug_build = right_operand_first"
    by (simp add: example_request_def debug_build_def)
  from handle_unsupported_mode [OF m, of debug_build scenario_engine example_handler] k
  have "handle debug_build scenario_engine example_handler ?request
          = (Inl (invalid_argument ''Bad to_costing parameter''), example_handler,
             [LOG_INFO [S ''Processing matrix request '',
                        N (int (length (origins (sn_routing_matrix ?request)))), S ''x'',
                        N (int (length (destinations (sn_routing_matrix ?request))))]])"
    and "to_costing (mode (sn_routing_matrix ?request))
           = Inl (invalid_argument ''Bad to_costing parameter'')"
    by blast+
  then show ?thesis
    by (simp add: example_run_def example_request_def)
qed

text \<open>
  C4. The scenario: two origins, three destinations, \<^verbatim>\<open>max_duration\<close> 600, and a solver
  result whose times are 100, the sentinel, 700, 50, 599, 601. Lines 142 to 164 build the
  one row with the statuses reached, unknown, unreached, reached, reached, unreached, each
  entry carrying its time, and log \<^verbatim>\<open>nb_unknown\<close> 1 and \<^verbatim>\<open>nb_unreached\<close> 2. The sentinel
  is any time that passes the test against \<^verbatim>\<open>kMaxCost\<close>, which the five others do not.
\<close>

theorem scenario_two_by_three:
  assumes s: "eq_kMaxCost eng s"
    and ns: "\<not> eq_kMaxCost eng 100" "\<not> eq_kMaxCost eng 700" "\<not> eq_kMaxCost eng 50"
            "\<not> eq_kMaxCost eng 599" "\<not> eq_kMaxCost eng 601"
    and sources: "length sources = 2" and targets: "length targets = 3"
    and res: "map time res = [100, s, 700, 50, 599, 601]"
  shows "build_response bld eng h 600 sources targets res =
           (Inr \<lparr>rows = [\<lparr>routing_response =
                   [\<lparr>duration = 100, routing_status = reached\<rparr>,
                    \<lparr>duration = s, routing_status = unknown\<rparr>,
                    \<lparr>duration = 700, routing_status = unreached\<rparr>,
                    \<lparr>duration = 50, routing_status = reached\<rparr>,
                    \<lparr>duration = 599, routing_status = reached\<rparr>,
                    \<lparr>duration = 601, routing_status = unreached\<rparr>]\<rparr>]\<rparr>,
            h,
            [LOG_INFO [S ''Request done with '', N 1, S '' unknown and '', N 2,
                       S '' unreached'']])"
proof -
  from res obtain r1 r2 r3 r4 r5 r6 where
    r: "res = [r1, r2, r3, r4, r5, r6]"
    and t: "time r1 = 100" "time r2 = s" "time r3 = 700" "time r4 = 50" "time r5 = 599"
       "time r6 = 601"
    by (auto simp: map_eq_Cons_conv)
  show ?thesis
    unfolding build_response_def
    by (simp add: r t s ns sources targets)
qed

text \<open>
  On the example engine, and the whole run of the request for the mode \<open>walking\<close> at
  speed 1.4.
\<close>

theorem scenario_two_by_three_witness:
  "build_response debug_build scenario_engine example_handler 600
     [''A'', ''B''] [''C'', ''D'', ''E''] (times_of [100, 100000000, 700, 50, 599, 601])
     = (Inr \<lparr>rows = [\<lparr>routing_response =
                [\<lparr>duration = 100, routing_status = reached\<rparr>,
                 \<lparr>duration = 100000000, routing_status = unknown\<rparr>,
                 \<lparr>duration = 700, routing_status = unreached\<rparr>,
                 \<lparr>duration = 50, routing_status = reached\<rparr>,
                 \<lparr>duration = 599, routing_status = reached\<rparr>,
                 \<lparr>duration = 601, routing_status = unreached\<rparr>]\<rparr>]\<rparr>,
        example_handler,
        [LOG_INFO [S ''Request done with '', N 1, S '' unknown and '', N 2,
                   S '' unreached'']])
   \<and> fst (example_run debug_build scenario_engine street_network_routing_matrix ''walking'')
       = Inr \<lparr>rows = [\<lparr>routing_response =
                [\<lparr>duration = 100, routing_status = reached\<rparr>,
                 \<lparr>duration = 100000000, routing_status = unknown\<rparr>,
                 \<lparr>duration = 700, routing_status = unreached\<rparr>,
                 \<lparr>duration = 50, routing_status = reached\<rparr>,
                 \<lparr>duration = 599, routing_status = reached\<rparr>,
                 \<lparr>duration = 601, routing_status = unreached\<rparr>]\<rparr>]\<rparr>
   \<and> LOG_INFO [S ''Request done with '', N 1, S '' unknown and '', N 2, S '' unreached'']
       \<in> set (snd (snd (example_run debug_build scenario_engine
                           street_network_routing_matrix ''walking'')))"
proof -
  have s: "eq_kMaxCost scenario_engine 100000000"
    and ns: "\<not> eq_kMaxCost scenario_engine 100" "\<not> eq_kMaxCost scenario_engine 700"
      "\<not> eq_kMaxCost scenario_engine 50" "\<not> eq_kMaxCost scenario_engine 599"
      "\<not> eq_kMaxCost scenario_engine 601"
    by (simp_all add: scenario_engine_def example_engine_def)
  have l: "length [''A'', ''B''] = 2" "length [''C'', ''D'', ''E''] = 3"
    by simp_all
  have r: "map time (times_of [100, 100000000, 700, 50, 599, 601])
             = [100, 100000000, 700, 50, 599, 601]"
    by (simp add: times_of_def)
  note b = scenario_two_by_three [OF s ns l r, of debug_build example_handler]
  from b have "fst (example_run debug_build scenario_engine
                      street_network_routing_matrix ''walking'')
       = Inr \<lparr>rows = [\<lparr>routing_response =
                [\<lparr>duration = 100, routing_status = reached\<rparr>,
                 \<lparr>duration = 100000000, routing_status = unknown\<rparr>,
                 \<lparr>duration = 700, routing_status = unreached\<rparr>,
                 \<lparr>duration = 50, routing_status = reached\<rparr>,
                 \<lparr>duration = 599, routing_status = reached\<rparr>,
                 \<lparr>duration = 601, routing_status = unreached\<rparr>]\<rparr>]\<rparr>"
    and "LOG_INFO [S ''Request done with '', N 1, S '' unknown and '', N 2, S '' unreached'']
       \<in> set (snd (snd (example_run debug_build scenario_engine
                           street_network_routing_matrix ''walking'')))"
    by (simp_all add: example_defs)
  with b show ?thesis by simp
qed

text \<open>
  C5, as the code has it. The \<^verbatim>\<open>assert\<close> of line 147 is the only check of the length of
  the solver's result. Where assertions are compiled in (\<^verbatim>\<open>NDEBUG\<close> not defined), every
  response that \<^verbatim>\<open>handle\<close> returns was built from a solver result whose length is the
  number of origins times the number of destinations, its row as long, and a result of
  any other length stops the run at the assertion, before a single element is classified.
\<close>

theorem assert_on_result_count:
  assumes nd: "\<not> NDEBUG bld"
  shows "(\<forall>response h' t.
            handle bld eng h request = (Inr response, h', t)
            \<and> (requested_api request = street_network_routing_matrix
                 \<or> requested_api request = direct_path)
            \<longrightarrow> (\<exists>ps pt mc tm thr w w' res row.
                   Call_SourceToTarget ps pt mc tm thr \<in> set t
                 \<and> SourceToTarget eng ps pt mc tm thr w = (Inr res, w')
                 \<and> length res = length (origins (sn_routing_matrix request))
                                  * length (destinations (sn_routing_matrix request))
                 \<and> rows response = [\<lparr>routing_response = row\<rparr>]
                 \<and> length row = length res))
       \<and> (\<forall>h0 max_d sources targets res.
            length res \<noteq> length sources * length targets
            \<longrightarrow> build_response bld eng h0 max_d sources targets res
                  = (Inl assertion_failed, h0, []))"
proof -
  have "\<exists>ps pt mc tm thr w w' res row.
                   Call_SourceToTarget ps pt mc tm thr \<in> set t
                 \<and> SourceToTarget eng ps pt mc tm thr w = (Inr res, w')
                 \<and> length res = length (origins (sn_routing_matrix request))
                                  * length (destinations (sn_routing_matrix request))
                 \<and> rows response = [\<lparr>routing_response = row\<rparr>]
                 \<and> length row = length res"
    if run: "handle bld eng h request = (Inr response, h', t)"
      and kind: "requested_api request = street_network_routing_matrix
                 \<or> requested_api request = direct_path"
    for response h' t
    using run kind
  proof (rule handle_Inr)
    fix ps pt mc tm thr w w' res
    let ?row = "fst (classify_loop (eq_kMaxCost eng) (max_duration (sn_routing_matrix request))
                     res ([], 0, 0))"
    assume e: "Call_SourceToTarget ps pt mc tm thr \<in> set t"
      and s: "SourceToTarget eng ps pt mc tm thr w = (Inr res, w')"
      and r: "response = \<lparr>rows = [\<lparr>routing_response = ?row\<rparr>]\<rparr>"
      and l: "NDEBUG bld \<or> length res = length (origins (sn_routing_matrix request))
                                  * length (destinations (sn_routing_matrix request))"
    from l nd have "length res = length (origins (sn_routing_matrix request))
                                  * length (destinations (sn_routing_matrix request))"
      by simp
    moreover have "rows response = [\<lparr>routing_response = ?row\<rparr>]" by (simp add: r)
    moreover have "length ?row = length res" by (rule classify_loop_length)
    ultimately show ?thesis using e s by blast
  qed
  moreover have "build_response bld eng h0 max_d sources targets res
                  = (Inl assertion_failed, h0, [])"
    if "length res \<noteq> length sources * length targets" for h0 max_d sources targets res
    using that nd by (simp add: build_response_def)
  ultimately show ?thesis by blast
qed

text \<open>The example request, two origins and three destinations, and a result of one element.\<close>

theorem assert_on_result_count_witness:
  "\<not> NDEBUG debug_build
   \<and> build_response debug_build scenario_engine example_handler 600
        [''A'', ''B''] [''C'', ''D'', ''E''] (times_of [100])
       = (Inl assertion_failed, example_handler, [])
   \<and> fst (example_run debug_build (example_engine example_places (times_of [100]))
            street_network_routing_matrix ''car'') = Inl assertion_failed"
proof -
  have nd: "\<not> NDEBUG debug_build"
    by (simp add: debug_build_def)
  have l: "length (times_of [100]) \<noteq> length [''A'', ''B''] * length [''C'', ''D'', ''E'']"
    by (simp add: times_of_def)
  from assert_on_result_count [OF nd, of scenario_engine] l
  have "build_response debug_build scenario_engine example_handler 600
          [''A'', ''B''] [''C'', ''D'', ''E''] (times_of [100])
        = (Inl assertion_failed, example_handler, [])"
    by blast
  moreover have "fst (example_run debug_build (example_engine example_places (times_of [100]))
            street_network_routing_matrix ''car'') = Inl assertion_failed"
    by (simp add: example_defs)
  ultimately show ?thesis using nd by simp
qed

text \<open>
  With \<^verbatim>\<open>NDEBUG\<close> defined the assertion is gone: the same result of one element, for two
  origins and three destinations, is classified and returned as a row of one entry.
\<close>

theorem wrong_count_processed_under_NDEBUG:
  "fst (example_run release_build (example_engine example_places (times_of [100]))
          street_network_routing_matrix ''car'')
     = Inr \<lparr>rows = [\<lparr>routing_response = [\<lparr>duration = 100, routing_status = reached\<rparr>]\<rparr>]\<rparr>
   \<and> length (origins (sn_routing_matrix
         (example_request street_network_routing_matrix ''car'' 600)))
       * length (destinations (sn_routing_matrix
         (example_request street_network_routing_matrix ''car'' 600))) = 6"
  by (simp add: example_defs release_build_def)

text \<open>
  C6. A request whose kind is neither the matrix nor the direct path gets the empty
  response, which has no row. Nothing is raised; the handler is returned as it was, its
  \<^verbatim>\<open>mode_costing\<close> and the state of graph, projector and solver included; and the
  warning is all that happened: no collaborator was called.
\<close>

theorem handle_wrong_kind:
  assumes "requested_api request \<noteq> street_network_routing_matrix"
    and "requested_api request \<noteq> direct_path"
  shows "handle bld eng h request =
           (Inr Response_empty, h, [LOG_WARN ''wrong request: aborting''])
       \<and> rows Response_empty = []"
  using assms by (simp add: handle_def Response_empty_def)

theorem handle_wrong_kind_witness:
  "example_run debug_build scenario_engine (other_api 7) ''walking''
     = (Inr \<lparr>rows = []\<rparr>, example_handler, [LOG_WARN ''wrong request: aborting''])"
proof -
  let ?request = "example_request (other_api 7) ''walking'' 600"
  have 1: "requested_api ?request \<noteq> street_network_routing_matrix"
    and 2: "requested_api ?request \<noteq> direct_path"
    by (simp_all add: example_request_def)
  from handle_wrong_kind [OF 1 2, of debug_build scenario_engine example_handler]
  show ?thesis
    by (simp add: example_run_def Response_empty_def)
qed

text \<open>
  C7. A request of a valid kind for one of the three modes calls the projector once, with
  the places of the origins followed by the places of the destinations. If the mapping it
  returns lacks one of these places, \<^verbatim>\<open>path_locations.at\<close> throws
  \<^verbatim>\<open>std::out_of_range\<close>: the request ends there, without a response and without a call
  of the solver.
\<close>

theorem projection_gap_aborts:
  assumes run: "handle bld eng h request = (r, h', t)"
    and kind: "requested_api request = street_network_routing_matrix
               \<or> requested_api request = direct_path"
    and m: "mode (sn_routing_matrix request) \<in> {''walking'', ''bike'', ''car''}"
    and ids: "ids = map place (origins (sn_routing_matrix request))
                    @ map place (destinations (sn_routing_matrix request))"
  shows "\<exists>costing. Call_projector ids (mode (sn_routing_matrix request)) costing \<in> set t
           \<and> (\<forall>pl w e. projector eng ids (mode (sn_routing_matrix request)) costing
                          (engine_state h) = (Inr pl, w)
                  \<longrightarrow> e \<in> set ids \<longrightarrow> pl e = None
                  \<longrightarrow> r = Inl out_of_range \<and> (\<forall>ev \<in> set t. \<not> solver_call ev))"
proof -
  let ?m = "mode (sn_routing_matrix request)"
  let ?sources = "map place (origins (sn_routing_matrix request))"
  let ?targets = "map place (destinations (sn_routing_matrix request))"
  from m obtain tm where tm: "mode_map ?m = Some tm"
    by (auto simp: mode_map_Some)
  then obtain c where c: "to_costing ?m = Inr c"
    by (auto dest: supported_mode)
  let ?h1 = "h\<lparr>mode_costing := (mode_costing h)
           [TravelMode_value tm := Some (Create eng c
              (make_costing_option (mul_double eng) ?m (speed (sn_routing_matrix request))))]\<rparr>"
  let ?costing = "mode_costing ?h1 ! TravelMode_value tm"
  let ?t1 = "[LOG_INFO [S ''Processing matrix request '',
                            N (int (length (origins (sn_routing_matrix request)))), S ''x'',
                            N (int (length (destinations (sn_routing_matrix request))))],
                   Call_Create c (make_costing_option (mul_double eng)
                     ?m (speed (sn_routing_matrix request)))]"
  obtain r2 h2 t2 where p: "project_locations eng ?h1 ?m ?costing ?sources ?targets = (r2, h2, t2)"
    by (cases "project_locations eng ?h1 ?m ?costing ?sources ?targets")
  have t: "\<exists>tl. t = ?t1 @ t2 @ tl"
    using run kind tm c refl refl refl refl
    by (cases rule: handle_cases) (use p in auto)
  from project_locations_frame(2) [OF p]
  have called: "Call_projector ids ?m ?costing \<in> set t2"
    unfolding ids by auto
  with t have 1: "Call_projector ids ?m ?costing \<in> set t" by auto
  have 2: "r = Inl out_of_range \<and> (\<forall>ev \<in> set t. \<not> solver_call ev)"
    if pr: "projector eng ids ?m ?costing (engine_state h) = (Inr pl, w)"
      and e: "e \<in> set ids" and n: "pl e = None" for pl w e
  proof -
    have "engine_state ?h1 = engine_state h" by simp
    with pr have "projector eng (?sources @ ?targets) ?m ?costing (engine_state ?h1) = (Inr pl, w)"
      unfolding ids by simp
    from project_locations_missing [OF this e [unfolded ids] n] p
    have r2: "r2 = Inl out_of_range" by simp
    from project_locations_frame(2) [OF p] have ns: "\<forall>ev \<in> set t2. \<not> solver_call ev"
      by auto
    show ?thesis
      using run kind tm c refl refl refl refl
    proof (cases rule: handle_cases)
      case (project_failed e t2')
      with p r2 ns show ?thesis by auto
    next
      case (matrix_failed ps pt h2 t2 e t3)
      with p r2 show ?thesis by simp
    next
      case (response_failed ps pt h2 t2 res h3 t3 e t4)
      with p r2 show ?thesis by simp
    next
      case (completed ps pt h2 t2 res h3 t3 response h4 t4 t5)
      with p r2 show ?thesis by simp
    qed
  qed
  from 1 2 show ?thesis by blast
qed

text \<open>An engine whose projector does not know the place \<open>E\<close>.\<close>

theorem projection_gap_aborts_witness:
  "fst (example_run debug_build
          (example_engine [''A'', ''B'', ''C'', ''D'']
             (times_of [100, 100000000, 700, 50, 599, 601]))
          street_network_routing_matrix ''walking'') = Inl out_of_range
   \<and> (\<exists>costing. Call_projector [''A'', ''B'', ''C'', ''D'', ''E''] ''walking'' costing
         \<in> set (snd (snd (example_run debug_build
              (example_engine [''A'', ''B'', ''C'', ''D'']
                 (times_of [100, 100000000, 700, 50, 599, 601]))
              street_network_routing_matrix ''walking''))))"
proof -
  let ?eng = "example_engine [''A'', ''B'', ''C'', ''D'']
                (times_of [100, 100000000, 700, 50, 599, 601])"
  let ?request = "example_request street_network_routing_matrix ''walking'' 600"
  let ?run = "example_run debug_build ?eng street_network_routing_matrix ''walking''"
  let ?ids = "[''A'', ''B'', ''C'', ''D'', ''E'']"
  let ?pl = "map_of (map (\<lambda>e. (e, e))
               (filter (\<lambda>e. e \<in> set [''A'', ''B'', ''C'', ''D'']) ?ids))"
  have run: "handle debug_build ?eng example_handler ?request
               = (fst ?run, fst (snd ?run), snd (snd ?run))"
    by (simp add: example_run_def)
  have kind: "requested_api ?request = street_network_routing_matrix
              \<or> requested_api ?request = direct_path"
    by (simp add: example_request_def)
  have m: "mode (sn_routing_matrix ?request) \<in> {''walking'', ''bike'', ''car''}"
    by (simp add: example_request_def)
  have ids: "?ids = map place (origins (sn_routing_matrix ?request))
                    @ map place (destinations (sn_routing_matrix ?request))"
    by (simp add: example_request_def)
  from projection_gap_aborts [OF run kind m ids] obtain costing where
    c: "Call_projector ?ids (mode (sn_routing_matrix ?request)) costing \<in> set (snd (snd ?run))"
    and a: "\<And>pl w e. projector ?eng ?ids (mode (sn_routing_matrix ?request)) costing
                          (engine_state example_handler) = (Inr pl, w)
                  \<Longrightarrow> e \<in> set ?ids \<Longrightarrow> pl e = None \<Longrightarrow> fst ?run = Inl out_of_range"
    by blast
  have "projector ?eng ?ids (mode (sn_routing_matrix ?request)) costing
          (engine_state example_handler) = (Inr ?pl, 5)"
    by (simp add: example_engine_def example_handler_def)
  moreover have "''E'' \<in> set ?ids" by simp
  moreover have "?pl ''E'' = None" by simp
  ultimately have "fst ?run = Inl out_of_range" by (rule a)
  moreover from c have "\<exists>costing. Call_projector ?ids ''walking'' costing \<in> set (snd (snd ?run))"
    by (auto simp: example_request_def)
  ultimately show ?thesis by simp
qed

text \<open>
  C8. Whenever \<^verbatim>\<open>handle\<close> calls the solver, the distance threshold it passes is
  \<^verbatim>\<open>max_duration\<close>, converted to \<^verbatim>\<open>float\<close>, times a divisor of the engine: the
  pedestrian divisor for the mode \<open>walking\<close>, the bicycle divisor for \<open>bike\<close>, the auto
  divisor for any other mode, which at this point can only be \<open>car\<close>. It is what
  \<^verbatim>\<open>get_distance\<close> returns, and the travel mode passed with it is the one of
  \<^verbatim>\<open>mode_map\<close>.
\<close>

theorem threshold_passed_to_solver:
  assumes run: "handle bld eng h request = (r, h', t)"
    and call: "Call_SourceToTarget srcs tgts mc tm thr \<in> set t"
  shows "thr = fmul eng (float_of eng (max_duration (sn_routing_matrix request)))
           (if mode (sn_routing_matrix request) = ''walking''
              then kTimeDistCostThresholdPedestrianDivisor (thor eng)
            else if mode (sn_routing_matrix request) = ''bike''
              then kTimeDistCostThresholdBicycleDivisor (thor eng)
            else kTimeDistCostThresholdAutoDivisor (thor eng))
       \<and> thr = get_distance (fmul eng) (thor eng) (mode (sn_routing_matrix request))
                 (float_of eng (max_duration (sn_routing_matrix request)))
       \<and> mode_map (mode (sn_routing_matrix request)) = Some tm"
proof -
  let ?m = "mode (sn_routing_matrix request)"
  have kind: "requested_api request = street_network_routing_matrix
               \<or> requested_api request = direct_path"
  proof (rule ccontr)
    assume "\<not> ?thesis"
    with run have "t = [LOG_WARN ''wrong request: aborting'']"
      by (auto simp: handle_def)
    with call show False by simp
  qed
  have "mode_map ?m \<noteq> None"
  proof
    assume "mode_map ?m = None"
    with run kind have "t = [LOG_INFO [S ''Processing matrix request '',
                       N (int (length (origins (sn_routing_matrix request)))), S ''x'',
                       N (int (length (destinations (sn_routing_matrix request))))]]"
      unfolding handle_def Let_def by (auto simp: assign_mode_costing_unsupported)
    with call show False by simp
  qed
  then obtain tm' where tm': "mode_map ?m = Some tm'" by auto
  then obtain c where c: "to_costing ?m = Inr c" by (auto dest: supported_mode)
  have "thr = get_distance (fmul eng) (thor eng) ?m
                 (float_of eng (max_duration (sn_routing_matrix request)))
        \<and> mode_map_at ?m = Inr tm"
    using run kind tm' c refl refl refl refl
  proof (cases rule: handle_cases)
    case (project_failed e t2)
    from project_locations_no_solver [OF project_failed(1)] call project_failed(3)
    show ?thesis by auto
  next
    case (matrix_failed ps pt h2 t2 e t3)
    from project_locations_no_solver [OF matrix_failed(1)] call matrix_failed(4)
    have "Call_SourceToTarget srcs tgts mc tm thr \<in> set t3" by auto
    from compute_matrix_calls [OF matrix_failed(2) this] show ?thesis by simp
  next
    case (response_failed ps pt h2 t2 res h3 t3 e t4)
    from project_locations_no_solver [OF response_failed(1)]
      no_solver_call [OF build_response_frame(2) [OF response_failed(3)]]
      call response_failed(5)
    have "Call_SourceToTarget srcs tgts mc tm thr \<in> set t3" by auto
    from compute_matrix_calls [OF response_failed(2) this] show ?thesis by simp
  next
    case (completed ps pt h2 t2 res h3 t3 response h4 t4 t5)
    from project_locations_no_solver [OF completed(1)]
      no_solver_call [OF build_response_frame(2) [OF completed(3)]]
      no_solver_call [OF trim_graph_frame(2) [OF completed(4)]]
      call completed(6)
    have "Call_SourceToTarget srcs tgts mc tm thr \<in> set t3" by auto
    from compute_matrix_calls [OF completed(2) this] show ?thesis by simp
  qed
  then have "thr = get_distance (fmul eng) (thor eng) ?m
                 (float_of eng (max_duration (sn_routing_matrix request)))"
    and "mode_map ?m = Some tm"
    by (auto simp: mode_map_at_def split: option.splits)
  then show ?thesis
    by (simp add: get_distance_def)
qed

text \<open>The example request for the bicycle.\<close>

theorem threshold_passed_to_solver_witness:
  "Call_SourceToTarget [''A'', ''B''] [''C'', ''D'', ''E'']
     ((mode_costing example_handler)
        [2 := Some (bicycle, make_costing_option (mul_double scenario_engine) ''bike''
                               (Num 1.4))])
     kBicycle (Times (Of_u32 600) (Lit ''bicycle divisor''))
     \<in> set (snd (snd (example_run debug_build scenario_engine
                         street_network_routing_matrix ''bike'')))
   \<and> get_distance (fmul scenario_engine) (thor scenario_engine) ''bike''
         (float_of scenario_engine 600) = Times (Of_u32 600) (Lit ''bicycle divisor'')"
proof -
  let ?request = "example_request street_network_routing_matrix ''bike'' 600"
  let ?run = "example_run debug_build scenario_engine street_network_routing_matrix ''bike''"
  let ?mc = "(mode_costing example_handler)
        [2 := Some (bicycle, make_costing_option (mul_double scenario_engine) ''bike''
                               (Num 1.4))]"
  have run: "handle debug_build scenario_engine example_handler ?request
               = (fst ?run, fst (snd ?run), snd (snd ?run))"
    by (simp add: example_run_def)
  have call: "Call_SourceToTarget [''A'', ''B''] [''C'', ''D'', ''E''] ?mc kBicycle
                (Times (Of_u32 600) (Lit ''bicycle divisor'')) \<in> set (snd (snd ?run))"
    by (simp add: example_defs)
  have rq: "mode (sn_routing_matrix ?request) = ''bike''"
    "max_duration (sn_routing_matrix ?request) = 600"
    by (simp_all add: example_request_def)
  from threshold_passed_to_solver [OF run call]
  have "Times (Of_u32 600) (Lit ''bicycle divisor'')
          = get_distance (fmul scenario_engine) (thor scenario_engine) ''bike''
              (float_of scenario_engine 600)"
    unfolding rq by blast
  with call show ?thesis by simp
qed

text \<open>
  C9. A request of a valid kind for a supported mode leaves \<^verbatim>\<open>mode_costing\<close> changed in
  one slot only, whatever happens after line 116: the slot of the mode holds the model
  the factory built from the options of this request, in which the pedestrian and the
  bicycle \<^verbatim>\<open>walking_speed\<close> are the request's speed multiplied by 3.6, in place of the
  model it held; every other slot holds what it held; the array keeps its size. After a
  further request for the same mode the slot holds the model built from the speed of that
  further request, and the other slots are still what they were at the start.
\<close>

theorem mode_costing_slot_replaced:
  assumes run: "handle bld eng h request = (r, h', t)"
    and kind: "requested_api request = street_network_routing_matrix
               \<or> requested_api request = direct_path"
    and i: "mode_index (mode (sn_routing_matrix request)) = Inr i"
    and c: "to_costing (mode (sn_routing_matrix request)) = Inr c"
    and len: "length (mode_costing h) = kMaxTravelMode"
  shows "mode_costing h' = (mode_costing h)
           [i := Some (Create eng c (make_costing_option (mul_double eng)
                   (mode (sn_routing_matrix request)) (speed (sn_routing_matrix request))))]
       \<and> mode_costing h' ! i = Some (Create eng c (make_costing_option (mul_double eng)
                   (mode (sn_routing_matrix request)) (speed (sn_routing_matrix request))))
       \<and> (\<forall>j. j \<noteq> i \<longrightarrow> mode_costing h' ! j = mode_costing h ! j)
       \<and> length (mode_costing h') = kMaxTravelMode
       \<and> mode_costing h' ! i = Some (Create eng c
            \<lparr>costing_options = (replicate 12 \<lparr>walking_speed = None\<rparr>)
               [Costing_value pedestrian :=
                  \<lparr>walking_speed = Some (mul_double eng (speed (sn_routing_matrix request)) 3.6)\<rparr>,
                Costing_value bicycle :=
                  \<lparr>walking_speed = Some (mul_double eng (speed (sn_routing_matrix request)) 3.6)\<rparr>]\<rparr>)
       \<and> (\<forall>request2 r2 h2 t2.
             handle bld eng h' request2 = (r2, h2, t2)
             \<and> (requested_api request2 = street_network_routing_matrix
                  \<or> requested_api request2 = direct_path)
             \<and> mode (sn_routing_matrix request2) = mode (sn_routing_matrix request)
             \<longrightarrow> mode_costing h2 ! i = Some (Create eng c
                    \<lparr>costing_options = (replicate 12 \<lparr>walking_speed = None\<rparr>)
                       [Costing_value pedestrian :=
                          \<lparr>walking_speed =
                             Some (mul_double eng (speed (sn_routing_matrix request2)) 3.6)\<rparr>,
                        Costing_value bicycle :=
                          \<lparr>walking_speed =
                             Some (mul_double eng (speed (sn_routing_matrix request2)) 3.6)\<rparr>]\<rparr>)
                 \<and> (\<forall>j. j \<noteq> i \<longrightarrow> mode_costing h2 ! j = mode_costing h ! j)
                 \<and> length (mode_costing h2) = kMaxTravelMode)"
proof -
  let ?v = "Some (Create eng c (make_costing_option (mul_double eng)
                   (mode (sn_routing_matrix request)) (speed (sn_routing_matrix request))))"
  have eq: "mode_costing h' = (mode_costing h)[i := ?v]"
    using run kind i c by (rule handle_mode_costing)
  from i have "i < kMaxTravelMode" by (rule mode_index_lt)
  with len have lt: "i < length (mode_costing h)" by simp
  from eq lt have at: "mode_costing h' ! i = ?v" by simp
  from eq have others: "\<forall>j. j \<noteq> i \<longrightarrow> mode_costing h' ! j = mode_costing h ! j" by simp
  from eq len have len': "length (mode_costing h') = kMaxTravelMode" by simp
  from at have explicit: "mode_costing h' ! i = Some (Create eng c
            \<lparr>costing_options = (replicate 12 \<lparr>walking_speed = None\<rparr>)
               [Costing_value pedestrian :=
                  \<lparr>walking_speed = Some (mul_double eng (speed (sn_routing_matrix request)) 3.6)\<rparr>,
                Costing_value bicycle :=
                  \<lparr>walking_speed = Some (mul_double eng (speed (sn_routing_matrix request)) 3.6)\<rparr>]\<rparr>)"
    unfolding make_costing_option_eq .
  have again: "mode_costing h2 ! i = Some (Create eng c
                    \<lparr>costing_options = (replicate 12 \<lparr>walking_speed = None\<rparr>)
                       [Costing_value pedestrian :=
                          \<lparr>walking_speed =
                             Some (mul_double eng (speed (sn_routing_matrix request2)) 3.6)\<rparr>,
                        Costing_value bicycle :=
                          \<lparr>walking_speed =
                             Some (mul_double eng (speed (sn_routing_matrix request2)) 3.6)\<rparr>]\<rparr>)
                 \<and> (\<forall>j. j \<noteq> i \<longrightarrow> mode_costing h2 ! j = mode_costing h ! j)
                 \<and> length (mode_costing h2) = kMaxTravelMode"
    if run2: "handle bld eng h' request2 = (r2, h2, t2)"
      and kind2: "requested_api request2 = street_network_routing_matrix
                  \<or> requested_api request2 = direct_path"
      and same: "mode (sn_routing_matrix request2) = mode (sn_routing_matrix request)"
    for request2 r2 h2 t2
  proof -
    from i c same have i2: "mode_index (mode (sn_routing_matrix request2)) = Inr i"
      and c2: "to_costing (mode (sn_routing_matrix request2)) = Inr c"
      by simp_all
    have eq2: "mode_costing h2 = (mode_costing h')
           [i := Some (Create eng c (make_costing_option (mul_double eng)
                   (mode (sn_routing_matrix request2)) (speed (sn_routing_matrix request2))))]"
      using run2 kind2 i2 c2 by (rule handle_mode_costing)
    from lt len' len have lt': "i < length (mode_costing h')" by simp
    from eq2 lt' have "mode_costing h2 ! i
        = Some (Create eng c (make_costing_option (mul_double eng)
                   (mode (sn_routing_matrix request2)) (speed (sn_routing_matrix request2))))"
      by simp
    then have 1: "mode_costing h2 ! i = Some (Create eng c
                    \<lparr>costing_options = (replicate 12 \<lparr>walking_speed = None\<rparr>)
                       [Costing_value pedestrian :=
                          \<lparr>walking_speed =
                             Some (mul_double eng (speed (sn_routing_matrix request2)) 3.6)\<rparr>,
                        Costing_value bicycle :=
                          \<lparr>walking_speed =
                             Some (mul_double eng (speed (sn_routing_matrix request2)) 3.6)\<rparr>]\<rparr>)"
      unfolding make_costing_option_eq .
    from eq2 others have 2: "\<forall>j. j \<noteq> i \<longrightarrow> mode_costing h2 ! j = mode_costing h ! j"
      by simp
    from eq2 len' have 3: "length (mode_costing h2) = kMaxTravelMode" by simp
    from 1 2 3 show ?thesis by blast
  qed
  from eq at others len' explicit again show ?thesis by blast
qed

text \<open>
  The example request for the bicycle at the speed 1.4, on the handler as constructed,
  then the same request at the speed 5.
\<close>

theorem mode_costing_slot_replaced_witness:
  "mode_costing (fst (snd (example_run debug_build scenario_engine
                             street_network_routing_matrix ''bike'')))
     = [Some (auto_costing, default_directions_options),
        Some (pedestrian, default_directions_options),
        Some (bicycle,
              \<lparr>costing_options = (replicate 12 \<lparr>walking_speed = None\<rparr>)
                 [Costing_value pedestrian :=
                    \<lparr>walking_speed = Some (Times_double (Num 1.4) 3.6)\<rparr>,
                  Costing_value bicycle :=
                    \<lparr>walking_speed = Some (Times_double (Num 1.4) 3.6)\<rparr>]\<rparr>),
        None]
   \<and> mode_costing (fst (snd (example_second_run debug_build scenario_engine
                                street_network_routing_matrix ''bike'' (Num 5)))) ! 2
     = Some (bicycle,
             \<lparr>costing_options = (replicate 12 \<lparr>walking_speed = None\<rparr>)
                [Costing_value pedestrian := \<lparr>walking_speed = Some (Times_double (Num 5) 3.6)\<rparr>,
                 Costing_value bicycle := \<lparr>walking_speed = Some (Times_double (Num 5) 3.6)\<rparr>]\<rparr>)
   \<and> mode_costing (fst (snd (example_second_run debug_build scenario_engine
                                street_network_routing_matrix ''bike'' (Num 5)))) ! 1
     = Some (pedestrian, default_directions_options)
   \<and> Handler_new scenario_engine 0 = Inr example_handler"
proof -
  let ?request = "example_request street_network_routing_matrix ''bike'' 600"
  let ?request2 = "example_request_at street_network_routing_matrix ''bike'' 600 (Num 5)"
  let ?run = "example_run debug_build scenario_engine street_network_routing_matrix ''bike''"
  let ?run2 = "example_second_run debug_build scenario_engine
                 street_network_routing_matrix ''bike'' (Num 5)"
  have run: "handle debug_build scenario_engine example_handler ?request
               = (fst ?run, fst (snd ?run), snd (snd ?run))"
    by (simp add: example_run_def)
  have kind: "requested_api ?request = street_network_routing_matrix
              \<or> requested_api ?request = direct_path"
    by (simp add: example_request_def)
  have i: "mode_index (mode (sn_routing_matrix ?request)) = Inr 2"
    by (simp add: example_request_def mode_index_def mode_map_at_def mode_map_def)
  have c: "to_costing (mode (sn_routing_matrix ?request)) = Inr bicycle"
    by (simp add: example_request_def to_costing_def)
  have len: "length (mode_costing example_handler) = kMaxTravelMode"
    by (simp add: example_handler_def kMaxTravelMode_def)
  have rq: "mode (sn_routing_matrix ?request) = ''bike''"
    "speed (sn_routing_matrix ?request) = Num 1.4"
    by (simp_all add: example_request_def)
  have md: "mul_double scenario_engine = Times_double"
    "Create scenario_engine = Pair"
    by (simp_all add: scenario_engine_def example_engine_def fun_eq_iff)
  note th = mode_costing_slot_replaced [OF run kind i c len, unfolded rq]
  from th have "mode_costing (fst (snd ?run)) = (mode_costing example_handler)
           [2 := Some (Create scenario_engine bicycle
                   (make_costing_option (mul_double scenario_engine) ''bike'' (Num 1.4)))]"
    by (rule conjunct1)
  then have 1: "mode_costing (fst (snd ?run))
     = [Some (auto_costing, default_directions_options),
        Some (pedestrian, default_directions_options),
        Some (bicycle,
              \<lparr>costing_options = (replicate 12 \<lparr>walking_speed = None\<rparr>)
                 [Costing_value pedestrian :=
                    \<lparr>walking_speed = Some (Times_double (Num 1.4) 3.6)\<rparr>,
                  Costing_value bicycle :=
                    \<lparr>walking_speed = Some (Times_double (Num 1.4) 3.6)\<rparr>]\<rparr>),
        None]"
    by (simp add: example_handler_def md make_costing_option_eq)
  have run2: "handle debug_build scenario_engine (fst (snd ?run)) ?request2
                = (fst ?run2, fst (snd ?run2), snd (snd ?run2))
              \<and> (requested_api ?request2 = street_network_routing_matrix
                   \<or> requested_api ?request2 = direct_path)
              \<and> mode (sn_routing_matrix ?request2) = ''bike''"
    by (simp add: example_second_run_def example_request_at_def example_request_def)
  have s2: "speed (sn_routing_matrix ?request2) = Num 5"
    by (simp add: example_request_at_def)
  from th run2 have "mode_costing (fst (snd ?run2)) ! 2 = Some (Create scenario_engine bicycle
            \<lparr>costing_options = (replicate 12 \<lparr>walking_speed = None\<rparr>)
               [Costing_value pedestrian :=
                  \<lparr>walking_speed =
                     Some (mul_double scenario_engine (speed (sn_routing_matrix ?request2)) 3.6)\<rparr>,
                Costing_value bicycle :=
                  \<lparr>walking_speed =
                     Some (mul_double scenario_engine (speed (sn_routing_matrix ?request2)) 3.6)\<rparr>]\<rparr>)
       \<and> (\<forall>j. j \<noteq> 2 \<longrightarrow> mode_costing (fst (snd ?run2)) ! j = mode_costing example_handler ! j)"
    by blast
  then have 2: "mode_costing (fst (snd ?run2)) ! 2
     = Some (bicycle,
             \<lparr>costing_options = (replicate 12 \<lparr>walking_speed = None\<rparr>)
                [Costing_value pedestrian := \<lparr>walking_speed = Some (Times_double (Num 5) 3.6)\<rparr>,
                 Costing_value bicycle := \<lparr>walking_speed = Some (Times_double (Num 5) 3.6)\<rparr>]\<rparr>)"
    and 3: "mode_costing (fst (snd ?run2)) ! 1 = Some (pedestrian, default_directions_options)"
    by (simp_all add: s2 md example_handler_def)
  have 4: "Handler_new scenario_engine 0 = Inr example_handler"
    unfolding scenario_engine_def by (rule Handler_new_example)
  from 1 2 3 4 show ?thesis by simp
qed

text \<open>
  C10. A response that \<^verbatim>\<open>handle\<close> returns for a request of a valid kind has exactly one
  row. The row has one entry for each element of the result the solver returned, in the
  same order, and the duration of each entry is the time of its element as it is: an
  entry is \<open>unknown\<close> exactly when its time passes the test against \<^verbatim>\<open>kMaxCost\<close>, and
  then the duration it reports is that sentinel time. And lines 142 to 164 do build that
  row from every result that gets past the \<^verbatim>\<open>assert\<close>.
\<close>

theorem response_row_durations:
  "(\<forall>response h' t.
      handle bld eng h request = (Inr response, h', t)
      \<and> (requested_api request = street_network_routing_matrix
           \<or> requested_api request = direct_path)
      \<longrightarrow> (\<exists>ps pt mc tm thr w w' res row.
             Call_SourceToTarget ps pt mc tm thr \<in> set t
           \<and> SourceToTarget eng ps pt mc tm thr w = (Inr res, w')
           \<and> rows response = [\<lparr>routing_response = row\<rparr>]
           \<and> length row = length res
           \<and> map duration row = map time res
           \<and> (\<forall>i < length res. duration (row ! i) = time (res ! i)
                  \<and> (routing_status (row ! i) = unknown
                       \<longleftrightarrow> eq_kMaxCost eng (time (res ! i))))))
   \<and> (\<forall>h0 max_d sources targets res.
        NDEBUG bld \<or> length res = length sources * length targets
        \<longrightarrow> (\<exists>row t. build_response bld eng h0 max_d sources targets res
                         = (Inr \<lparr>rows = [\<lparr>routing_response = row\<rparr>]\<rparr>, h0, t)
                     \<and> length row = length res
                     \<and> map duration row = map time res))"
proof -
  have "\<exists>ps pt mc tm thr w w' res row.
             Call_SourceToTarget ps pt mc tm thr \<in> set t
           \<and> SourceToTarget eng ps pt mc tm thr w = (Inr res, w')
           \<and> rows response = [\<lparr>routing_response = row\<rparr>]
           \<and> length row = length res
           \<and> map duration row = map time res
           \<and> (\<forall>i < length res. duration (row ! i) = time (res ! i)
                  \<and> (routing_status (row ! i) = unknown
                       \<longleftrightarrow> eq_kMaxCost eng (time (res ! i))))"
    if run: "handle bld eng h request = (Inr response, h', t)"
      and kind: "requested_api request = street_network_routing_matrix
                 \<or> requested_api request = direct_path"
    for response h' t
    using run kind
  proof (rule handle_Inr)
    fix ps pt mc tm thr w w' res
    let ?row = "fst (classify_loop (eq_kMaxCost eng) (max_duration (sn_routing_matrix request))
                       res ([], 0, 0))"
    assume e: "Call_SourceToTarget ps pt mc tm thr \<in> set t"
      and s: "SourceToTarget eng ps pt mc tm thr w = (Inr res, w')"
      and r: "response = \<lparr>rows = [\<lparr>routing_response = ?row\<rparr>]\<rparr>"
    have "rows response = [\<lparr>routing_response = ?row\<rparr>]" by (simp add: r)
    moreover have "length ?row = length res" by (rule classify_loop_length)
    moreover have "map duration ?row = map time res" by (rule classify_loop_durations)
    moreover have "\<forall>i < length res. duration (?row ! i) = time (res ! i)
                  \<and> (routing_status (?row ! i) = unknown
                       \<longleftrightarrow> eq_kMaxCost eng (time (res ! i)))"
      by (simp add: classify_loop_row)
    ultimately show ?thesis using e s by blast
  qed
  moreover have "\<exists>row t. build_response bld eng h0 max_d sources targets res
                         = (Inr \<lparr>rows = [\<lparr>routing_response = row\<rparr>]\<rparr>, h0, t)
                     \<and> length row = length res
                     \<and> map duration row = map time res"
    if ok: "NDEBUG bld \<or> length res = length sources * length targets"
    for h0 max_d sources targets res
  proof -
    let ?row = "fst (classify_loop (eq_kMaxCost eng) max_d res ([], 0, 0))"
    from ok have "\<exists>t. build_response bld eng h0 max_d sources targets res
                    = (Inr \<lparr>rows = [\<lparr>routing_response = ?row\<rparr>]\<rparr>, h0, t)"
      by (auto simp: build_response_def split: prod.splits)
    moreover have "length ?row = length res" by (rule classify_loop_length)
    moreover have "map duration ?row = map time res" by (rule classify_loop_durations)
    ultimately show ?thesis by blast
  qed
  ultimately show ?thesis by blast
qed

text \<open>The scenario: the second entry reports the sentinel of the example engine.\<close>

theorem response_row_durations_witness:
  "\<exists>response row.
      fst (example_run debug_build scenario_engine street_network_routing_matrix ''walking'')
        = Inr response
    \<and> rows response = [\<lparr>routing_response = row\<rparr>]
    \<and> map duration row = [100, 100000000, 700, 50, 599, 601]
    \<and> routing_status (row ! 1) = unknown"
proof -
  let ?request = "example_request street_network_routing_matrix ''walking'' 600"
  let ?run = "example_run debug_build scenario_engine street_network_routing_matrix ''walking''"
  let ?res = "times_of [100, 100000000, 700, 50, 599, 601]"
  have r: "fst ?run = Inr (projr (fst ?run))"
    by (simp add: example_defs)
  then have run: "handle debug_build scenario_engine example_handler ?request
               = (Inr (projr (fst ?run)), fst (snd ?run), snd (snd ?run))
             \<and> (requested_api ?request = street_network_routing_matrix
                  \<or> requested_api ?request = direct_path)"
    by (simp add: example_run_def example_request_def)
  from response_row_durations [of debug_build scenario_engine example_handler ?request] run
  obtain ps pt mc tm thr w w' res row where
    s: "SourceToTarget scenario_engine ps pt mc tm thr w = (Inr res, w')"
    and rows: "rows (projr (fst ?run)) = [\<lparr>routing_response = row\<rparr>]"
    and d: "map duration row = map time res"
    and u: "\<forall>i < length res. duration (row ! i) = time (res ! i)
              \<and> (routing_status (row ! i) = unknown
                   \<longleftrightarrow> eq_kMaxCost scenario_engine (time (res ! i)))"
    by blast
  from s have res: "res = ?res"
    by (simp add: scenario_engine_def example_engine_def)
  from d have 1: "map duration row = [100, 100000000, 700, 50, 599, 601]"
    by (simp add: res times_of_def)
  have "1 < length res" "eq_kMaxCost scenario_engine (time (res ! 1))"
    by (simp_all add: res times_of_def scenario_engine_def example_engine_def)
  with u have 2: "routing_status (row ! 1) = unknown"
    by blast
  from r rows 1 2 show ?thesis
    by (intro exI [of _ "projr (fst ?run)"] exI [of _ row] conjI)
qed

end
